theory Spec2Isabelle
  imports Main
begin

section \<open>The workflow state resource of the Linear Terraform provider\<close>

text \<open>
  A shallow embedding of \<^verbatim>\<open>internal/provider/resource_workflow_state.go\<close>: the resource
  model, its schema and the five lifecycle handlers \<^verbatim>\<open>Create\<close>, \<^verbatim>\<open>Read\<close>,
  \<^verbatim>\<open>Update\<close>, \<^verbatim>\<open>Delete\<close> and \<^verbatim>\<open>ImportState\<close>.

  The handlers are Go methods that mutate a response object and call a GraphQL client.
  Here a handler is a function from the response it is handed, and the state of the remote
  service, to the response it leaves behind, the list of remote calls it made and the new
  state of the remote service. A Go panic is the left injection of the result.

  The context argument and the trace messages written with \<^verbatim>\<open>tflog\<close> have no part in what
  a handler returns and are left out, as are \<^verbatim>\<open>Metadata\<close> and \<^verbatim>\<open>Configure\<close>: the resource
  is taken with the client pointer \<^verbatim>\<open>Configure\<close> has, or has not, stored.
\<close>

subsection \<open>Attribute values of the plugin framework\<close>

text \<open>
  \<^verbatim>\<open>types.String\<close> and \<^verbatim>\<open>types.Number\<close> are null, unknown or known. The number type is
  kept abstract: \<open>'n\<close> stands for the values of \<^verbatim>\<open>*big.Float\<close>.
\<close>

datatype tf_string = StringNull | StringUnknown | StringValue string

datatype 'n tf_number = NumberNull | NumberUnknown | NumberValue 'n

text \<open>\<^verbatim>\<open>ValueString\<close> returns the empty string for a null or unknown value.\<close>

fun ValueString :: "tf_string \<Rightarrow> string" where
  "ValueString (StringValue s) = s"
| "ValueString StringNull = []"
| "ValueString StringUnknown = []"

text \<open>
  \<^verbatim>\<open>ValueStringPointer\<close> returns \<^verbatim>\<open>nil\<close> for a null value only; for an unknown value
  it points to the empty string. A \<^verbatim>\<open>*string\<close> is a \<open>string option\<close>.
\<close>

fun ValueStringPointer :: "tf_string \<Rightarrow> string option" where
  "ValueStringPointer StringNull = None"
| "ValueStringPointer StringUnknown = Some []"
| "ValueStringPointer (StringValue s) = Some s"

fun StringPointerValue :: "string option \<Rightarrow> tf_string" where
  "StringPointerValue None = StringNull"
| "StringPointerValue (Some s) = StringValue s"

text \<open>
  \<^verbatim>\<open>ValueBigFloat\<close> returns the stored pointer, which is \<^verbatim>\<open>nil\<close> unless the value is
  known.
\<close>

fun ValueBigFloat :: "'n tf_number \<Rightarrow> 'n option" where
  "ValueBigFloat (NumberValue n) = Some n"
| "ValueBigFloat NumberNull = None"
| "ValueBigFloat NumberUnknown = None"

subsection \<open>Narrowing and widening of numbers\<close>

text \<open>
  \<^verbatim>\<open>(*big.Float).Float64\<close> and \<^verbatim>\<open>big.NewFloat\<close> belong to Go's standard library. They
  are parameters of the model: \<open>Float64\<close> returns the nearest \<^verbatim>\<open>float64\<close> (type \<open>'f\<close>)
  together with the accuracy of the conversion, \<open>NewFloat\<close> widens a \<^verbatim>\<open>float64\<close>.
  The type \<open>'f\<close> stands for the \<^verbatim>\<open>float64\<close> values other than NaN, on which alone
  \<^verbatim>\<open>big.NewFloat\<close> is defined: \<open>Float64\<close> never returns NaN and a decoded JSON response
  never holds one.
\<close>

datatype Accuracy = Below | Exact | Above

record ('n, 'f) bigfloat =
  Float64 :: "'n \<Rightarrow> 'f \<times> Accuracy"
  NewFloat :: "'f \<Rightarrow> 'n"

subsection \<open>Diagnostics\<close>

text \<open>
  The detail of a diagnostic built with \<^verbatim>\<open>fmt.Sprintf\<close> is kept as the format string and
  its argument; the argument of \<^verbatim>\<open>%s\<close> is an \<^verbatim>\<open>error\<close>, which may be \<^verbatim>\<open>nil\<close>.
  An error of the client is represented by its message. An error that validation against
  the schema reports on an attribute is kept as the attribute's name and what was found
  wrong: the attribute's definition, a value configured for a read-only attribute, no
  value configured for a required attribute, a value that cannot be read, or the
  validator that failed (with its message, for a regular expression).
\<close>

type_synonym err = string

datatype sprintf_arg = ErrArg "err option" | QuotedArg string

datatype attribute_error =
    InvalidAttributeDefinition
  | ReadOnlyAttributeConfigured
  | RequiredAttributeMissing
  | ConfigurationReadError
  | LengthValidator
  | OneOfValidator
  | RegexValidator string

datatype diagnostic =
    ErrorDiagnostic string string sprintf_arg
  | WarningDiagnostic string string
  | AttributeErrorDiagnostic string attribute_error

fun is_error :: "diagnostic \<Rightarrow> bool" where
  "is_error (ErrorDiagnostic summary fmt arg) = True"
| "is_error (WarningDiagnostic summary detail) = False"
| "is_error (AttributeErrorDiagnostic attr kind) = True"

definition HasError :: "diagnostic list \<Rightarrow> bool" where
  "HasError ds = list_ex is_error ds"

text \<open>The two kinds of error the handlers add themselves.\<close>

definition ClientError :: "string \<Rightarrow> err option \<Rightarrow> diagnostic" where
  "ClientError fmt e = ErrorDiagnostic ''Client Error'' fmt (ErrArg e)"

definition UnexpectedImportIdentifier :: "string \<Rightarrow> diagnostic" where
  "UnexpectedImportIdentifier ident =
     ErrorDiagnostic ''Unexpected Import Identifier''
       ''Expected import identifier with format: workflow_state_name:team_key. Got: %q''
       (QuotedArg ident)"

subsection \<open>The resource model and the state store\<close>

record 'n WorkflowStateResourceModel =
  Id :: tf_string
  Name :: tf_string
  Type :: tf_string
  Description :: tf_string
  Color :: tf_string
  Position :: "'n tf_number"
  TeamId :: tf_string

text \<open>
  The state of a response is absent (\<open>None\<close>) or holds the seven attributes.
  \<^verbatim>\<open>State.Set\<close> replaces the whole object; \<^verbatim>\<open>State.SetAttribute\<close> at the root path
  \<^verbatim>\<open>id\<close> writes that attribute alone, in an object whose other attributes are null when
  the state was absent. Both convert Go values of the types the schema declares, so they
  return no diagnostics.
\<close>

definition null_model :: "'n WorkflowStateResourceModel" where
  "null_model = \<lparr>Id = StringNull, Name = StringNull, Type = StringNull,
     Description = StringNull, Color = StringNull, Position = NumberNull,
     TeamId = StringNull\<rparr>"

record 'n response =
  Diagnostics :: "diagnostic list"
  State :: "'n WorkflowStateResourceModel option"

definition State_Set :: "'n WorkflowStateResourceModel \<Rightarrow> 'n response \<Rightarrow> 'n response" where
  "State_Set data resp = resp\<lparr>State := Some data\<rparr>"

definition State_SetAttribute_id :: "string \<Rightarrow> 'n response \<Rightarrow> 'n response" where
  "State_SetAttribute_id v resp =
     resp\<lparr>State := Some ((case State resp of None \<Rightarrow> null_model | Some m \<Rightarrow> m)
                        \<lparr>Id := StringValue v\<rparr>)\<rparr>"

text \<open>
  \<^verbatim>\<open>Diagnostics.Append\<close> adds each diagnostic that the collection does not contain yet;
  \<^verbatim>\<open>Diagnostics.AddError\<close> appends one error diagnostic in the same way.
\<close>

definition append_diagnostic :: "diagnostic list \<Rightarrow> diagnostic \<Rightarrow> diagnostic list" where
  "append_diagnostic ds d = (if d \<in> set ds then ds else ds @ [d])"

definition AddError :: "diagnostic \<Rightarrow> 'n response \<Rightarrow> 'n response" where
  "AddError d resp = resp\<lparr>Diagnostics := append_diagnostic (Diagnostics resp) d\<rparr>"

definition Append :: "diagnostic list \<Rightarrow> 'n response \<Rightarrow> 'n response" where
  "Append ds resp = resp\<lparr>Diagnostics := foldl append_diagnostic (Diagnostics resp) ds\<rparr>"

text \<open>
  A request carries a plan or a prior state. \<^verbatim>\<open>Get(ctx, &data)\<close> decodes it into the
  model and returns diagnostics; the request is represented by both results.
\<close>

record 'n decoded =
  Get_diags :: "diagnostic list"
  Get_data :: "'n WorkflowStateResourceModel"

subsection \<open>The remote client\<close>

text \<open>
  The five operations are generated GraphQL bindings. Their argument and result types are
  the fields the handlers set and read. The client is opaque: an operation maps its
  arguments and the state \<open>'r\<close> of the remote service to an error or a response, and a
  new state of the remote service.
\<close>

record 'f WorkflowStateCreateInput =
  create_Name :: string
  create_Type :: string
  create_Position :: 'f
  create_Color :: string
  create_Description :: "string option"
  create_TeamId :: string

record 'f WorkflowStateUpdateInput =
  update_Name :: string
  update_Color :: string
  update_Description :: "string option"
  update_Position :: 'f

record 'f created_WorkflowState =
  created_Id :: string
  created_Name :: string
  created_Type :: string
  created_Position :: 'f
  created_Color :: string
  created_Description :: "string option"

record 'f fetched_WorkflowState =
  fetched_Name :: string
  fetched_Type :: string
  fetched_Position :: 'f
  fetched_Color :: string
  fetched_Team_Id :: string
  fetched_Description :: "string option"

record 'f updated_WorkflowState =
  updated_Name :: string
  updated_Position :: 'f
  updated_Color :: string
  updated_Description :: "string option"

record found_node =
  node_Id :: string

record ('f, 'r) client =
  createWorkflowState ::
    "'f WorkflowStateCreateInput \<Rightarrow> 'r \<Rightarrow> (err + 'f created_WorkflowState) \<times> 'r"
  getWorkflowState :: "string \<Rightarrow> 'r \<Rightarrow> (err + 'f fetched_WorkflowState) \<times> 'r"
  updateWorkflowState ::
    "'f WorkflowStateUpdateInput \<Rightarrow> string \<Rightarrow> 'r \<Rightarrow> (err + 'f updated_WorkflowState) \<times> 'r"
  deleteWorkflowState :: "string \<Rightarrow> 'r \<Rightarrow> (err + unit) \<times> 'r"
  findWorkflowState :: "string \<Rightarrow> string \<Rightarrow> 'r \<Rightarrow> (err + found_node list) \<times> 'r"

datatype 'f remote_call =
    CreateCall "'f WorkflowStateCreateInput"
  | GetCall string
  | UpdateCall "'f WorkflowStateUpdateInput" string
  | DeleteCall string
  | FindCall string string

text \<open>
  What a handler leaves behind when it returns: the response, the remote calls it made,
  in order, and the state of the remote service.
\<close>

record ('n, 'f, 'r) outcome =
  resp_of :: "'n response"
  calls :: "'f remote_call list"
  remote :: 'r

datatype panic = NilPointerDereference

text \<open>
  The resource holds a pointer to the client, \<^verbatim>\<open>nil\<close> until \<^verbatim>\<open>Configure\<close> has stored
  one; \<^verbatim>\<open>*r.client\<close> panics on \<^verbatim>\<open>nil\<close>.
\<close>

record ('f, 'r) WorkflowStateResource =
  client_ptr :: "('f, 'r) client option"

subsection \<open>ImportState\<close>

text \<open>
  \<^verbatim>\<open>strings.Split(s, ":")\<close>: the substrings between the separators, one more than there
  are separators; the empty string gives one empty part. The separator is a single byte,
  so the scan goes byte by byte, \<open>acc\<close> holding the current part in reverse.
\<close>

fun split_acc :: "char \<Rightarrow> string \<Rightarrow> string \<Rightarrow> string list" where
  "split_acc sep acc [] = [rev acc]"
| "split_acc sep acc (c # cs) =
     (if c = sep then rev acc # split_acc sep [] cs else split_acc sep (c # acc) cs)"

definition Split :: "string \<Rightarrow> char \<Rightarrow> string list" where
  "Split s sep = split_acc sep [] s"

text \<open>
  The guard reads \<^verbatim>\<open>parts[1]\<close> only when there are exactly two parts, the disjunction
  being evaluated from the left.
\<close>

definition ImportState ::
  "('f, 'r) WorkflowStateResource \<Rightarrow> string \<Rightarrow> 'n response \<Rightarrow> 'r \<Rightarrow>
     panic + ('n, 'f, 'r) outcome" where
  "ImportState r ID resp w =
     (let parts = Split ID CHR '':'' in
      if length parts \<noteq> 2 \<or> parts ! 0 = [] \<or> parts ! 1 = [] then
        Inr \<lparr>resp_of = AddError (UnexpectedImportIdentifier ID) resp, calls = [], remote = w\<rparr>
      else
        (case client_ptr r of
           None \<Rightarrow> Inl NilPointerDereference
         | Some c \<Rightarrow>
             (case findWorkflowState c (parts ! 0) (parts ! 1) w of
                (Inl e, w') \<Rightarrow>
                  Inr \<lparr>resp_of = AddError
                         (ClientError ''Unable to import workflow state, got error: %s'' (Some e))
                         resp,
                       calls = [FindCall (parts ! 0) (parts ! 1)], remote = w'\<rparr>
              | (Inr nodes, w') \<Rightarrow>
                  if length nodes \<noteq> 1 then
                    Inr \<lparr>resp_of = AddError
                           (ClientError ''Unable to import workflow state, got error: %s'' None)
                           resp,
                         calls = [FindCall (parts ! 0) (parts ! 1)], remote = w'\<rparr>
                  else
                    Inr \<lparr>resp_of = State_SetAttribute_id (node_Id (nodes ! 0)) resp,
                         calls = [FindCall (parts ! 0) (parts ! 1)], remote = w'\<rparr>)))"

subsection \<open>Create, Read, Update and Delete\<close>

text \<open>
  Each handler decodes the plan (or the prior state), returns at once when the response
  holds an error, builds the input, makes one remote call and, when the call succeeded,
  copies fields of the answer into the decoded model and stores the model.
  \<^verbatim>\<open>Float64\<close> is called on the pointer \<^verbatim>\<open>ValueBigFloat\<close> returns, so a position that is
  not known panics; the accuracy it returns is assigned to the blank identifier.
\<close>

definition Create ::
  "('n, 'f) bigfloat \<Rightarrow> ('f, 'r) WorkflowStateResource \<Rightarrow> 'n decoded \<Rightarrow> 'n response \<Rightarrow> 'r \<Rightarrow>
     panic + ('n, 'f, 'r) outcome" where
  "Create big r plan resp0 w =
     (let data = Get_data plan;
          resp = Append (Get_diags plan) resp0 in
      if HasError (Diagnostics resp) then Inr \<lparr>resp_of = resp, calls = [], remote = w\<rparr>
      else
        (case ValueBigFloat (Position data) of
           None \<Rightarrow> Inl NilPointerDereference
         | Some n \<Rightarrow>
             (let position = fst (Float64 big n);
                  input = \<lparr>create_Name = ValueString (Name data),
                           create_Type = ValueString (Type data),
                           create_Position = position,
                           create_Color = ValueString (Color data),
                           create_Description = ValueStringPointer (Description data),
                           create_TeamId = ValueString (TeamId data)\<rparr> in
              case client_ptr r of
                None \<Rightarrow> Inl NilPointerDereference
              | Some c \<Rightarrow>
                  (case createWorkflowState c input w of
                     (Inl e, w') \<Rightarrow>
                       Inr \<lparr>resp_of = AddError
                              (ClientError ''Unable to create workflow state, got error: %s''
                                 (Some e)) resp,
                            calls = [CreateCall input], remote = w'\<rparr>
                   | (Inr workflowState, w') \<Rightarrow>
                       Inr \<lparr>resp_of = State_Set
                              (data\<lparr>Id := StringValue (created_Id workflowState),
                                    Name := StringValue (created_Name workflowState),
                                    Type := StringValue (created_Type workflowState),
                                    Position := NumberValue
                                      (NewFloat big (created_Position workflowState)),
                                    Color := StringValue (created_Color workflowState),
                                    Description := StringPointerValue
                                      (created_Description workflowState)\<rparr>) resp,
                            calls = [CreateCall input], remote = w'\<rparr>))))"

definition Read ::
  "('n, 'f) bigfloat \<Rightarrow> ('f, 'r) WorkflowStateResource \<Rightarrow> 'n decoded \<Rightarrow> 'n response \<Rightarrow> 'r \<Rightarrow>
     panic + ('n, 'f, 'r) outcome" where
  "Read big r state resp0 w =
     (let data = Get_data state;
          resp = Append (Get_diags state) resp0 in
      if HasError (Diagnostics resp) then Inr \<lparr>resp_of = resp, calls = [], remote = w\<rparr>
      else
        (case client_ptr r of
           None \<Rightarrow> Inl NilPointerDereference
         | Some c \<Rightarrow>
             (case getWorkflowState c (ValueString (Id data)) w of
                (Inl e, w') \<Rightarrow>
                  Inr \<lparr>resp_of = AddError
                         (ClientError ''Unable to read workflow state, got error: %s''
                            (Some e)) resp,
                       calls = [GetCall (ValueString (Id data))], remote = w'\<rparr>
              | (Inr workflowState, w') \<Rightarrow>
                  Inr \<lparr>resp_of = State_Set
                         (data\<lparr>Name := StringValue (fetched_Name workflowState),
                               Type := StringValue (fetched_Type workflowState),
                               Position := NumberValue
                                 (NewFloat big (fetched_Position workflowState)),
                               Color := StringValue (fetched_Color workflowState),
                               TeamId := StringValue (fetched_Team_Id workflowState),
                               Description := StringPointerValue
                                 (fetched_Description workflowState)\<rparr>) resp,
                       calls = [GetCall (ValueString (Id data))], remote = w'\<rparr>)))"

definition Update ::
  "('n, 'f) bigfloat \<Rightarrow> ('f, 'r) WorkflowStateResource \<Rightarrow> 'n decoded \<Rightarrow> 'n response \<Rightarrow> 'r \<Rightarrow>
     panic + ('n, 'f, 'r) outcome" where
  "Update big r plan resp0 w =
     (let data = Get_data plan;
          resp = Append (Get_diags plan) resp0 in
      if HasError (Diagnostics resp) then Inr \<lparr>resp_of = resp, calls = [], remote = w\<rparr>
      else
        (case ValueBigFloat (Position data) of
           None \<Rightarrow> Inl NilPointerDereference
         | Some n \<Rightarrow>
             (let position = fst (Float64 big n);
                  input = \<lparr>update_Name = ValueString (Name data),
                           update_Color = ValueString (Color data),
                           update_Description = ValueStringPointer (Description data),
                           update_Position = position\<rparr> in
              case client_ptr r of
                None \<Rightarrow> Inl NilPointerDereference
              | Some c \<Rightarrow>
                  (case updateWorkflowState c input (ValueString (Id data)) w of
                     (Inl e, w') \<Rightarrow>
                       Inr \<lparr>resp_of = AddError
                              (ClientError ''Unable to update workflow state, got error: %s''
                                 (Some e)) resp,
                            calls = [UpdateCall input (ValueString (Id data))], remote = w'\<rparr>
                   | (Inr workflowState, w') \<Rightarrow>
                       Inr \<lparr>resp_of = State_Set
                              (data\<lparr>Name := StringValue (updated_Name workflowState),
                                    Position := NumberValue
                                      (NewFloat big (updated_Position workflowState)),
                                    Color := StringValue (updated_Color workflowState),
                                    Description := StringPointerValue
                                      (updated_Description workflowState)\<rparr>) resp,
                            calls = [UpdateCall input (ValueString (Id data))],
                            remote = w'\<rparr>))))"

definition Delete ::
  "('f, 'r) WorkflowStateResource \<Rightarrow> 'n decoded \<Rightarrow> 'n response \<Rightarrow> 'r \<Rightarrow>
     panic + ('n, 'f, 'r) outcome" where
  "Delete r state resp0 w =
     (let data = Get_data state;
          resp = Append (Get_diags state) resp0 in
      if HasError (Diagnostics resp) then Inr \<lparr>resp_of = resp, calls = [], remote = w\<rparr>
      else
        (case client_ptr r of
           None \<Rightarrow> Inl NilPointerDereference
         | Some c \<Rightarrow>
             (case deleteWorkflowState c (ValueString (Id data)) w of
                (Inl e, w') \<Rightarrow>
                  Inr \<lparr>resp_of = AddError
                         (ClientError ''Unable to delete workflow state, got error: %s''
                            (Some e)) resp,
                       calls = [DeleteCall (ValueString (Id data))], remote = w'\<rparr>
              | (Inr u, w') \<Rightarrow>
                  Inr \<lparr>resp_of = resp, calls = [DeleteCall (ValueString (Id data))],
                       remote = w'\<rparr>)))"

subsection \<open>Schema\<close>

text \<open>
  The schema is data: for each attribute its flags, plan modifiers and validators.
  \<^verbatim>\<open>colorRegex()\<close> and \<^verbatim>\<open>uuidRegex()\<close> are defined in another file of the provider;
  they are parameters here, each given as the predicate \<^verbatim>\<open>MatchString\<close> of the compiled
  expression.
\<close>

datatype plan_modifier = UseStateForUnknown | RequiresReplace

datatype validator =
    UTF8LengthAtLeast nat
  | OneOf "string list"
  | RegexMatches "string \<Rightarrow> bool" string

datatype attribute_kind = StringAttribute | NumberAttribute

record attribute =
  kind :: attribute_kind
  MarkdownDescription :: string
  Required :: bool
  Optional :: bool
  Computed :: bool
  PlanModifiers :: "plan_modifier list"
  Validators :: "validator list"

definition Schema :: "(string \<Rightarrow> bool) \<Rightarrow> (string \<Rightarrow> bool) \<Rightarrow> (string \<times> attribute) list" where
  "Schema colorRegex uuidRegex =
     [(''id'', \<lparr>kind = StringAttribute,
         MarkdownDescription = ''Identifier of the workflow state.'',
         Required = False, Optional = False, Computed = True,
         PlanModifiers = [UseStateForUnknown], Validators = []\<rparr>),
      (''name'', \<lparr>kind = StringAttribute,
         MarkdownDescription = ''Name of the workflow state.'',
         Required = True, Optional = False, Computed = False,
         PlanModifiers = [], Validators = [UTF8LengthAtLeast 1]\<rparr>),
      (''type'', \<lparr>kind = StringAttribute,
         MarkdownDescription = ''Type of the workflow state.'',
         Required = True, Optional = False, Computed = False,
         PlanModifiers = [RequiresReplace],
         Validators = [OneOf [''triage'', ''backlog'', ''unstarted'', ''started'',
                              ''completed'', ''canceled'']]\<rparr>),
      (''position'', \<lparr>kind = NumberAttribute,
         MarkdownDescription = ''Position of the workflow state.'',
         Required = True, Optional = False, Computed = False,
         PlanModifiers = [], Validators = []\<rparr>),
      (''color'', \<lparr>kind = StringAttribute,
         MarkdownDescription = ''Color of the workflow state.'',
         Required = True, Optional = False, Computed = False,
         PlanModifiers = [],
         Validators = [RegexMatches colorRegex ''must be a hex color'']\<rparr>),
      (''description'', \<lparr>kind = StringAttribute,
         MarkdownDescription = ''Description of the workflow state.'',
         Required = False, Optional = True, Computed = False,
         PlanModifiers = [], Validators = []\<rparr>),
      (''team_id'', \<lparr>kind = StringAttribute,
         MarkdownDescription = ''Identifier of the team.'',
         Required = True, Optional = False, Computed = False,
         PlanModifiers = [RequiresReplace],
         Validators = [RegexMatches uuidRegex ''must be an uuid'']\<rparr>)]"

text \<open>The value of an attribute of the model, by its \<^verbatim>\<open>tfsdk\<close> tag.\<close>

datatype 'n attribute_value = StringAttr tf_string | NumberAttr "'n tf_number"

definition attribute_of ::
  "'n WorkflowStateResourceModel \<Rightarrow> string \<Rightarrow> 'n attribute_value option" where
  "attribute_of m name =
     (if name = ''id'' then Some (StringAttr (Id m))
      else if name = ''name'' then Some (StringAttr (Name m))
      else if name = ''type'' then Some (StringAttr (Type m))
      else if name = ''description'' then Some (StringAttr (Description m))
      else if name = ''color'' then Some (StringAttr (Color m))
      else if name = ''position'' then Some (NumberAttr (Position m))
      else if name = ''team_id'' then Some (StringAttr (TeamId m))
      else None)"

subsection \<open>What the framework does with the schema\<close>

text \<open>
  The schema only declares validators and plan modifiers; the framework and the
  validators library run them. What they do is written out here for the validators and
  the modifier the schema uses.
\<close>

text \<open>
  \<^verbatim>\<open>utf8.RuneCountInString\<close>: the number of runes, where a byte that does not start a
  well-formed encoding counts as one rune. \<open>first_byte\<close> is the table \<^verbatim>\<open>first\<close> of
  package \<^verbatim>\<open>unicode/utf8\<close>: the length of the encoding a byte starts and the range its
  second byte must lie in.
\<close>

definition byte_in :: "nat \<Rightarrow> nat \<Rightarrow> char \<Rightarrow> bool" where
  "byte_in lo hi c \<longleftrightarrow> lo \<le> (of_char c :: nat) \<and> (of_char c :: nat) \<le> hi"

definition first_byte :: "char \<Rightarrow> (nat \<times> nat \<times> nat) option" where
  "first_byte c =
     (if byte_in 0xC2 0xDF c then Some (2, 0x80, 0xBF)
      else if byte_in 0xE0 0xE0 c then Some (3, 0xA0, 0xBF)
      else if byte_in 0xE1 0xEC c then Some (3, 0x80, 0xBF)
      else if byte_in 0xED 0xED c then Some (3, 0x80, 0x9F)
      else if byte_in 0xEE 0xEF c then Some (3, 0x80, 0xBF)
      else if byte_in 0xF0 0xF0 c then Some (4, 0x90, 0xBF)
      else if byte_in 0xF1 0xF3 c then Some (4, 0x80, 0xBF)
      else if byte_in 0xF4 0xF4 c then Some (4, 0x80, 0x8F)
      else None)"

text \<open>The number of bytes the loop advances by at the head of a non-empty string.\<close>

definition rune_size :: "string \<Rightarrow> nat" where
  "rune_size s =
     (if byte_in 0 0x7F (s ! 0) then 1
      else case first_byte (s ! 0) of
        None \<Rightarrow> 1
      | Some (k, lo, hi) \<Rightarrow>
          if k > length s then 1
          else if \<not> byte_in lo hi (s ! 1) then 1
          else if k = 2 then 2
          else if \<not> byte_in 0x80 0xBF (s ! 2) then 1
          else if k = 3 then 3
          else if \<not> byte_in 0x80 0xBF (s ! 3) then 1
          else k)"

function RuneCountInString :: "string \<Rightarrow> nat" where
  "RuneCountInString [] = 0"
| "RuneCountInString (c # cs) = Suc (RuneCountInString (drop (rune_size (c # cs) - 1) cs))"
  by pat_completeness auto
termination
  by (relation "measure length") auto

text \<open>
  The string validators skip a null or unknown value. Each one that fails adds an
  attribute error.
\<close>

fun validate_string :: "string \<Rightarrow> validator \<Rightarrow> tf_string \<Rightarrow> diagnostic list" where
  "validate_string attr v StringNull = []"
| "validate_string attr v StringUnknown = []"
| "validate_string attr (UTF8LengthAtLeast n) (StringValue s) =
     (if RuneCountInString s < n then [AttributeErrorDiagnostic attr LengthValidator] else [])"
| "validate_string attr (OneOf values) (StringValue s) =
     (if s \<in> set values then [] else [AttributeErrorDiagnostic attr OneOfValidator])"
| "validate_string attr (RegexMatches MatchString message) (StringValue s) =
     (if MatchString s then [] else [AttributeErrorDiagnostic attr (RegexValidator message)])"

fun is_null :: "'n attribute_value \<Rightarrow> bool" where
  "is_null (StringAttr v) = (v = StringNull)"
| "is_null (NumberAttr v) = (v = NumberNull)"

text \<open>
  Validation of one attribute of a configuration, as the framework does it
  (\<^verbatim>\<open>AttributeValidate\<close>). An attribute that is neither required, optional nor computed is
  an error of the definition, and nothing else is checked. Otherwise the configured value
  is read; a value configured for an attribute that is computed and not optional is an
  error, and so is a null value for a required attribute; then the validators declared on
  the attribute run on the value, in the order they are declared. A value that is unknown
  is not null.
\<close>

definition validate_attribute ::
  "'n WorkflowStateResourceModel \<Rightarrow> string \<times> attribute \<Rightarrow> diagnostic list" where
  "validate_attribute config na =
     (if \<not> Required (snd na) \<and> \<not> Optional (snd na) \<and> \<not> Computed (snd na)
      then [AttributeErrorDiagnostic (fst na) InvalidAttributeDefinition]
      else case attribute_of config (fst na) of
        None \<Rightarrow> [AttributeErrorDiagnostic (fst na) ConfigurationReadError]
      | Some v \<Rightarrow>
          (if Computed (snd na) \<and> \<not> Optional (snd na) \<and> \<not> is_null v
           then [AttributeErrorDiagnostic (fst na) ReadOnlyAttributeConfigured] else []) @
          (if Required (snd na) \<and> is_null v
           then [AttributeErrorDiagnostic (fst na) RequiredAttributeMissing] else []) @
          (case v of
             StringAttr s \<Rightarrow>
               concat (map (\<lambda>vd. validate_string (fst na) vd s) (Validators (snd na)))
           | NumberAttr x \<Rightarrow> []))"

text \<open>
  Validation of a configuration against the schema (\<^verbatim>\<open>SchemaValidate\<close>) validates every
  attribute and collects the diagnostics with \<^verbatim>\<open>Diagnostics.Append\<close>, so none is repeated.
  The resource type declares no validator besides those of the schema. The framework
  visits the attributes in the order of a Go map, which is not determined; here they are
  visited in the order the schema is written, so only which diagnostics are reported is
  meaningful, not their order.

  Validation is run by the host framework, on a request of its own
  (\<^verbatim>\<open>ValidateResourceConfig\<close>); no handler of this resource calls it.
\<close>

definition ValidateConfig ::
  "(string \<times> attribute) list \<Rightarrow> 'n WorkflowStateResourceModel \<Rightarrow> diagnostic list" where
  "ValidateConfig schema config =
     foldl append_diagnostic [] (concat (map (validate_attribute config) schema))"

text \<open>
  The plan modifier \<^verbatim>\<open>RequiresReplace\<close>, when a resource that exists is planned to be
  updated: the attribute forces replacement when its planned value differs from its prior
  value. The result lists the attributes that force replacement.
\<close>

definition requires_replace ::
  "(string \<times> attribute) list \<Rightarrow> 'n WorkflowStateResourceModel \<Rightarrow>
     'n WorkflowStateResourceModel \<Rightarrow> string list" where
  "requires_replace schema prior plan =
     map fst (filter (\<lambda>na. RequiresReplace \<in> set (PlanModifiers (snd na)) \<and>
                            attribute_of plan (fst na) \<noteq> attribute_of prior (fst na)) schema)"

subsection \<open>Notions the properties are stated with\<close>

text \<open>A diagnostic of the kind the handlers add after a failed remote call.\<close>

fun is_client_error :: "diagnostic \<Rightarrow> bool" where
  "is_client_error (ErrorDiagnostic summary fmt arg) = (summary = ''Client Error'')"
| "is_client_error (WarningDiagnostic summary detail) = False"
| "is_client_error (AttributeErrorDiagnostic attr k) = False"


text \<open>The object \<^verbatim>\<open>SetAttribute\<close> writes into: the state, or the null object.\<close>

definition state_object ::
  "'n WorkflowStateResourceModel option \<Rightarrow> 'n WorkflowStateResourceModel" where
  "state_object st = (case st of None \<Rightarrow> null_model | Some m \<Rightarrow> m)"

text \<open>
  What can be observed of a handler that has run: the remote calls it made and the state
  it left in the response; nothing, when it panicked.
\<close>

definition calls_made :: "panic + ('n, 'f, 'r) outcome \<Rightarrow> 'f remote_call list option" where
  "calls_made res = (case res of Inl p \<Rightarrow> None | Inr out \<Rightarrow> Some (calls out))"

definition stored_state ::
  "panic + ('n, 'f, 'r) outcome \<Rightarrow> 'n WorkflowStateResourceModel option" where
  "stored_state res = (case res of Inl p \<Rightarrow> None | Inr out \<Rightarrow> State (resp_of out))"

text \<open>
  A remote service that echoes what it stores: the answer to a create call repeats the
  input, and the answer to a later read of that record holds the same values, with the
  team of the input as the nested team.
\<close>

definition echoes_created ::
  "'f WorkflowStateCreateInput \<Rightarrow> 'f created_WorkflowState \<Rightarrow> bool" where
  "echoes_created input ws \<longleftrightarrow>
     created_Name ws = create_Name input \<and> created_Type ws = create_Type input \<and>
     created_Position ws = create_Position input \<and> created_Color ws = create_Color input \<and>
     created_Description ws = create_Description input"

definition echoes_stored ::
  "'f WorkflowStateCreateInput \<Rightarrow> 'f fetched_WorkflowState \<Rightarrow> bool" where
  "echoes_stored input ws \<longleftrightarrow>
     fetched_Name ws = create_Name input \<and> fetched_Type ws = create_Type input \<and>
     fetched_Position ws = create_Position input \<and> fetched_Color ws = create_Color input \<and>
     fetched_Description ws = create_Description input \<and>
     fetched_Team_Id ws = create_TeamId input"

text \<open>
  The input \<^verbatim>\<open>Create\<close> builds from the decoded plan, \<open>n\<close> being the number the position
  holds, and the input \<^verbatim>\<open>Update\<close> builds.
\<close>

definition planned_create_input ::
  "('n, 'f) bigfloat \<Rightarrow> 'n WorkflowStateResourceModel \<Rightarrow> 'n \<Rightarrow> 'f WorkflowStateCreateInput" where
  "planned_create_input big data n =
     \<lparr>create_Name = ValueString (Name data), create_Type = ValueString (Type data),
      create_Position = fst (Float64 big n), create_Color = ValueString (Color data),
      create_Description = ValueStringPointer (Description data),
      create_TeamId = ValueString (TeamId data)\<rparr>"

definition planned_update_input ::
  "('n, 'f) bigfloat \<Rightarrow> 'n WorkflowStateResourceModel \<Rightarrow> 'n \<Rightarrow> 'f WorkflowStateUpdateInput" where
  "planned_update_input big data n =
     \<lparr>update_Name = ValueString (Name data), update_Color = ValueString (Color data),
      update_Description = ValueStringPointer (Description data),
      update_Position = fst (Float64 big n)\<rparr>"

text \<open>The diagnostics of the response once the request has been decoded.\<close>

definition decoded_diagnostics :: "'n decoded \<Rightarrow> 'n response \<Rightarrow> diagnostic list" where
  "decoded_diagnostics d resp = foldl append_diagnostic (Diagnostics resp) (Get_diags d)"

subsection \<open>Sample collaborators\<close>

text \<open>
  Concrete collaborators on which the properties below are exercised. Numbers are
  integers; the sample narrowing is exact up to \<open>2 ^ 53\<close> and on even integers, and
  rounds an odd integer beyond that down by one.
\<close>

definition sample_big :: "(int, int) bigfloat" where
  "sample_big =
     \<lparr>Float64 = (\<lambda>x. if \<bar>x\<bar> \<le> 9007199254740992 \<or> even x then (x, Exact) else (x - 1, Below)),
      NewFloat = (\<lambda>f. f)\<rparr>"

text \<open>
  An in-memory remote service: the records it stores, by id. It names a new record after
  its name, answers with what it stores and finds records by name.
\<close>

type_synonym sample_remote = "(string \<times> int WorkflowStateCreateInput) list"

definition sample_fetched :: "int WorkflowStateCreateInput \<Rightarrow> int fetched_WorkflowState" where
  "sample_fetched s =
     \<lparr>fetched_Name = create_Name s, fetched_Type = create_Type s,
      fetched_Position = create_Position s, fetched_Color = create_Color s,
      fetched_Team_Id = create_TeamId s, fetched_Description = create_Description s\<rparr>"

definition sample_client :: "(int, sample_remote) client" where
  "sample_client =
     \<lparr>createWorkflowState = (\<lambda>input w.
        (Inr \<lparr>created_Id = ''ws-'' @ create_Name input, created_Name = create_Name input,
              created_Type = create_Type input, created_Position = create_Position input,
              created_Color = create_Color input,
              created_Description = create_Description input\<rparr>,
         (''ws-'' @ create_Name input, input) # w)),
      getWorkflowState = (\<lambda>ident w.
        (case map_of w ident of
           None \<Rightarrow> Inl ''Entity not found''
         | Some s \<Rightarrow> Inr (sample_fetched s), w)),
      updateWorkflowState = (\<lambda>input ident w.
        (case map_of w ident of
           None \<Rightarrow> (Inl ''Entity not found'', w)
         | Some s \<Rightarrow>
             (Inr \<lparr>updated_Name = update_Name input, updated_Position = update_Position input,
                   updated_Color = update_Color input,
                   updated_Description = update_Description input\<rparr>,
              (ident, s\<lparr>create_Name := update_Name input,
                         create_Position := update_Position input,
                         create_Color := update_Color input,
                         create_Description := update_Description input\<rparr>) # w))),
      deleteWorkflowState = (\<lambda>ident w.
        (case map_of w ident of
           None \<Rightarrow> (Inl ''Entity not found'', w)
         | Some s \<Rightarrow> (Inr (), filter (\<lambda>e. fst e \<noteq> ident) w))),
      findWorkflowState = (\<lambda>name key w.
        (Inr (map (\<lambda>e. \<lparr>node_Id = fst e\<rparr>) (filter (\<lambda>e. create_Name (snd e) = name) w)), w))\<rparr>"

text \<open>A remote service that cannot be reached: every call fails.\<close>

definition unreachable_client :: "(int, sample_remote) client" where
  "unreachable_client =
     \<lparr>createWorkflowState = (\<lambda>input w. (Inl ''connection refused'', w)),
      getWorkflowState = (\<lambda>ident w. (Inl ''connection refused'', w)),
      updateWorkflowState = (\<lambda>input ident w. (Inl ''connection refused'', w)),
      deleteWorkflowState = (\<lambda>ident w. (Inl ''connection refused'', w)),
      findWorkflowState = (\<lambda>name key w. (Inl ''connection refused'', w))\<rparr>"

definition sample_input :: "int WorkflowStateCreateInput" where
  "sample_input =
     \<lparr>create_Name = ''Done'', create_Type = ''completed'', create_Position = 3,
      create_Color = ''#00ff00'', create_Description = None,
      create_TeamId = ''6f9619ff-8b86-d011-b42d-00c04fc964ff''\<rparr>"

definition sample_plan :: "int WorkflowStateResourceModel" where
  "sample_plan =
     \<lparr>Id = StringUnknown, Name = StringValue ''Done'', Type = StringValue ''completed'',
      Description = StringNull, Color = StringValue ''#00ff00'', Position = NumberValue 3,
      TeamId = StringValue ''6f9619ff-8b86-d011-b42d-00c04fc964ff''\<rparr>"

definition sample_state :: "int WorkflowStateResourceModel" where
  "sample_state = sample_plan\<lparr>Id := StringValue ''ws-Done''\<rparr>"


text \<open>
  Sample matchers standing for the two regular expressions: a number sign and six
  hexadecimal digits; thirty-six characters, hyphens at the four usual places and
  hexadecimal digits elsewhere.
\<close>

definition is_hex_digit :: "char \<Rightarrow> bool" where
  "is_hex_digit c \<longleftrightarrow> c \<in> set ''0123456789abcdefABCDEF''"

definition sample_colorRegex :: "string \<Rightarrow> bool" where
  "sample_colorRegex s =
     (case s of [] \<Rightarrow> False
      | c # cs \<Rightarrow> c = CHR ''#'' \<and> length cs = 6 \<and> list_all is_hex_digit cs)"

definition sample_uuidRegex :: "string \<Rightarrow> bool" where
  "sample_uuidRegex s =
     (length s = 36 \<and>
      list_all (\<lambda>i. if i \<in> set [8, 13, 18, 23] then s ! i = CHR ''-''
                     else is_hex_digit (s ! i)) [0..<36])"

section \<open>Properties\<close>

subsection \<open>Diagnostics\<close>

lemma not_HasError_mem: "\<not> HasError ds \<Longrightarrow> is_error d \<Longrightarrow> d \<notin> set ds"
  by (auto simp: HasError_def list_ex_iff)

lemma append_diagnostic_error:
  "\<not> HasError ds \<Longrightarrow> is_error d \<Longrightarrow> append_diagnostic ds d = ds @ [d]"
  by (simp add: append_diagnostic_def not_HasError_mem)

lemma append_diagnostic_mem: "d \<in> set (append_diagnostic ds d)"
  by (simp add: append_diagnostic_def)

lemma HasError_append_diagnostic: "is_error d \<Longrightarrow> HasError (append_diagnostic ds d)"
  by (auto simp: append_diagnostic_def HasError_def list_ex_iff)

lemma is_error_ClientError: "is_error (ClientError fmt e)"
  by (simp add: ClientError_def)

lemma is_client_error_ClientError: "is_client_error (ClientError fmt e)"
  by (simp add: ClientError_def)

lemma is_error_UnexpectedImportIdentifier: "is_error (UnexpectedImportIdentifier ident)"
  by (simp add: UnexpectedImportIdentifier_def)

lemma filter_is_error_no_error: "\<not> HasError ds \<Longrightarrow> filter is_error ds = []"
  by (auto simp: HasError_def list_ex_iff filter_empty_conv)

subsection \<open>Splitting the import identifier\<close>

lemma split_acc_no_sep: "sep \<notin> set s \<Longrightarrow> split_acc sep acc s = [rev acc @ s]"
  by (induction s arbitrary: acc) auto

lemma split_acc_at_sep:
  "sep \<notin> set a \<Longrightarrow> split_acc sep acc (a @ sep # b) = (rev acc @ a) # split_acc sep [] b"
  by (induction a arbitrary: acc) auto

lemma split_acc_not_Nil: "split_acc sep acc s \<noteq> []"
  by (induction s arbitrary: acc) auto

lemma split_acc_length: "length (split_acc sep acc s) = Suc (count_list s sep)"
  by (induction s arbitrary: acc) auto

lemma split_acc_single:
  "split_acc sep acc s = [p] \<Longrightarrow> sep \<notin> set s \<and> p = rev acc @ s"
proof (induction s arbitrary: acc)
  case Nil
  then show ?case by simp
next
  case (Cons c cs)
  from Cons.prems have ne: "c \<noteq> sep"
    by (auto simp: split_acc_not_Nil split: if_splits)
  with Cons.prems have "split_acc sep (c # acc) cs = [p]" by simp
  from Cons.IH[OF this] ne show ?case by simp
qed

lemma split_acc_cons:
  "split_acc sep acc s = p # q # rest \<Longrightarrow>
     \<exists>a b. s = a @ sep # b \<and> sep \<notin> set a \<and> p = rev acc @ a \<and> split_acc sep [] b = q # rest"
proof (induction s arbitrary: acc)
  case Nil
  then show ?case by simp
next
  case (Cons c cs)
  show ?case
  proof (cases "c = sep")
    case True
    with Cons.prems have "p = rev acc" "split_acc sep [] cs = q # rest" by simp_all
    with True show ?thesis by (intro exI[of _ "[]"] exI[of _ cs]) simp
  next
    case False
    with Cons.prems have "split_acc sep (c # acc) cs = p # q # rest" by simp
    from Cons.IH[OF this] obtain a b where
      "cs = a @ sep # b" "sep \<notin> set a" "p = rev (c # acc) @ a" "split_acc sep [] b = q # rest"
      by blast
    with False show ?thesis by (intro exI[of _ "c # a"] exI[of _ b]) simp
  qed
qed

text \<open>
  The identifier splits into exactly the two parts \<open>a\<close> and \<open>b\<close> just when it is \<open>a\<close>, one
  separator and \<open>b\<close>, with no separator inside \<open>a\<close> or \<open>b\<close>.
\<close>

lemma Split_two_parts_iff:
  "Split s sep = [a, b] \<longleftrightarrow> s = a @ sep # b \<and> sep \<notin> set a \<and> sep \<notin> set b"
proof
  assume h: "Split s sep = [a, b]"
  then obtain a' b' where ab: "s = a' @ sep # b'" "sep \<notin> set a'" "a = rev [] @ a'"
      "split_acc sep [] b' = [b]"
    unfolding Split_def using split_acc_cons[of sep "[]" s a b "[]"] by blast
  from split_acc_single[OF ab(4)] ab show "s = a @ sep # b \<and> sep \<notin> set a \<and> sep \<notin> set b"
    by simp
next
  assume "s = a @ sep # b \<and> sep \<notin> set a \<and> sep \<notin> set b"
  then show "Split s sep = [a, b]"
    by (simp add: Split_def split_acc_at_sep split_acc_no_sep)
qed

lemma Split_length: "length (Split s sep) = Suc (count_list s sep)"
  by (simp add: Split_def split_acc_length)

lemma length_two_iff: "length xs = 2 \<longleftrightarrow> (\<exists>a b. xs = [a, b])"
  by (cases xs; cases "tl xs") auto

subsection \<open>ImportState\<close>

lemma ImportState_rejected:
  assumes "length (Split ID CHR '':'') \<noteq> 2 \<or> Split ID CHR '':'' ! 0 = []
             \<or> Split ID CHR '':'' ! 1 = []"
  shows "ImportState r ID resp w =
           Inr \<lparr>resp_of = AddError (UnexpectedImportIdentifier ID) resp, calls = [], remote = w\<rparr>"
  using assms by (simp add: ImportState_def Let_def)

lemma ImportState_accepted:
  assumes "Split ID CHR '':'' = [name, key]" "name \<noteq> []" "key \<noteq> []"
    and "client_ptr r = Some c"
  shows "ImportState r ID resp w =
     (case findWorkflowState c name key w of
        (Inl e, w') \<Rightarrow>
          Inr \<lparr>resp_of = AddError
                 (ClientError ''Unable to import workflow state, got error: %s'' (Some e)) resp,
               calls = [FindCall name key], remote = w'\<rparr>
      | (Inr nodes, w') \<Rightarrow>
          if length nodes \<noteq> 1 then
            Inr \<lparr>resp_of = AddError
                   (ClientError ''Unable to import workflow state, got error: %s'' None) resp,
                 calls = [FindCall name key], remote = w'\<rparr>
          else
            Inr \<lparr>resp_of = State_SetAttribute_id (node_Id (nodes ! 0)) resp,
                 calls = [FindCall name key], remote = w'\<rparr>)"
  using assms by (simp add: ImportState_def Let_def split: prod.splits sum.splits)

text \<open>
  Claim C2. When splitting the identifier on \<open>:\<close> does not yield exactly two non-empty
  parts, \<^verbatim>\<open>ImportState\<close> returns a response that differs from the one it was handed only
  in its diagnostics, which now hold the identifier-format error (so the response has an
  error); the state is untouched, no remote call has been made and the remote service is
  as it was. This holds whether or not the resource has a client.
\<close>

theorem ImportState_malformed_identifier:
  assumes "length (Split ID CHR '':'') \<noteq> 2 \<or> Split ID CHR '':'' ! 0 = []
             \<or> Split ID CHR '':'' ! 1 = []"
  shows "ImportState r ID resp w =
           Inr \<lparr>resp_of = resp\<lparr>Diagnostics :=
                   append_diagnostic (Diagnostics resp) (UnexpectedImportIdentifier ID)\<rparr>,
                calls = [], remote = w\<rparr>
         \<and> UnexpectedImportIdentifier ID
             \<in> set (append_diagnostic (Diagnostics resp) (UnexpectedImportIdentifier ID))
         \<and> HasError (append_diagnostic (Diagnostics resp) (UnexpectedImportIdentifier ID))"
  using ImportState_rejected[OF assms, of r resp w]
  by (simp add: AddError_def append_diagnostic_mem HasError_append_diagnostic
      is_error_UnexpectedImportIdentifier)

theorem ImportState_malformed_identifier_witness:
  "(length (Split ''DoneENG'' CHR '':'') \<noteq> 2 \<and>
    ImportState \<lparr>client_ptr = Some sample_client\<rparr> ''DoneENG''
        \<lparr>Diagnostics = [], State = None :: int WorkflowStateResourceModel option\<rparr> []
      = Inr \<lparr>resp_of = \<lparr>Diagnostics = [UnexpectedImportIdentifier ''DoneENG''], State = None\<rparr>,
             calls = [], remote = []\<rparr>) \<and>
   (Split '':ENG'' CHR '':'' ! 0 = [] \<and>
    ImportState \<lparr>client_ptr = Some sample_client\<rparr> '':ENG''
        \<lparr>Diagnostics = [], State = None :: int WorkflowStateResourceModel option\<rparr> []
      = Inr \<lparr>resp_of = \<lparr>Diagnostics = [UnexpectedImportIdentifier '':ENG''], State = None\<rparr>,
             calls = [], remote = []\<rparr>) \<and>
   (Split ''Done:'' CHR '':'' ! 1 = [] \<and>
    ImportState \<lparr>client_ptr = Some sample_client\<rparr> ''Done:''
        \<lparr>Diagnostics = [], State = None :: int WorkflowStateResourceModel option\<rparr> []
      = Inr \<lparr>resp_of = \<lparr>Diagnostics = [UnexpectedImportIdentifier ''Done:''], State = None\<rparr>,
             calls = [], remote = []\<rparr>) \<and>
   (length (Split ''Done:ENG:X'' CHR '':'') \<noteq> 2 \<and>
    ImportState \<lparr>client_ptr = Some sample_client\<rparr> ''Done:ENG:X''
        \<lparr>Diagnostics = [], State = None :: int WorkflowStateResourceModel option\<rparr> []
      = Inr \<lparr>resp_of = \<lparr>Diagnostics = [UnexpectedImportIdentifier ''Done:ENG:X''],
                        State = None\<rparr>,
             calls = [], remote = []\<rparr>)"
proof -
  have s1: "Split ''DoneENG'' CHR '':'' = [''DoneENG'']"
    and s2: "Split '':ENG'' CHR '':'' = [[], ''ENG'']"
    and s3: "Split ''Done:'' CHR '':'' = [''Done'', []]"
    and s4: "Split ''Done:ENG:X'' CHR '':'' = [''Done'', ''ENG'', ''X'']"
    by (simp_all add: Split_def)
  let ?r = "\<lparr>client_ptr = Some sample_client\<rparr>"
  let ?resp = "\<lparr>Diagnostics = [], State = None :: int WorkflowStateResourceModel option\<rparr>"
  show ?thesis
    using ImportState_malformed_identifier[of "''DoneENG''" ?r ?resp "[]"]
      ImportState_malformed_identifier[of "'':ENG''" ?r ?resp "[]"]
      ImportState_malformed_identifier[of "''Done:''" ?r ?resp "[]"]
      ImportState_malformed_identifier[of "''Done:ENG:X''" ?r ?resp "[]"]
    unfolding s1 s2 s3 s4
    by (simp add: append_diagnostic_def)
qed

text \<open>
  Claim C1. Let the identifier split on \<open>:\<close> into exactly two non-empty parts, the name
  and the team key, and let the resource have a client. \<^verbatim>\<open>ImportState\<close> then makes one
  remote call, the find query with these two parts. When the query returns exactly one
  node, the response differs from the one handed in only in its state: the attribute
  \<open>Id\<close> of the state object is set to that node's id and every other attribute is as it
  was (null, when there was no state). When the query returns a list of any other length,
  or an error, the response differs only in its diagnostics, which now hold a client
  error, and the state is untouched.
\<close>

theorem ImportState_lookup:
  assumes "Split ID CHR '':'' = [name, key]" and "name \<noteq> []" and "key \<noteq> []"
    and "client_ptr r = Some c"
  shows
    "(findWorkflowState c name key w = (Inr [node], w') \<longrightarrow>
        ImportState r ID resp w =
          Inr \<lparr>resp_of = resp\<lparr>State :=
                  Some ((state_object (State resp))\<lparr>Id := StringValue (node_Id node)\<rparr>)\<rparr>,
               calls = [FindCall name key], remote = w'\<rparr>) \<and>
     (findWorkflowState c name key w = (Inr nodes, w') \<and> length nodes \<noteq> 1 \<longrightarrow>
        ImportState r ID resp w =
          Inr \<lparr>resp_of = resp\<lparr>Diagnostics := append_diagnostic (Diagnostics resp)
                  (ClientError ''Unable to import workflow state, got error: %s'' None)\<rparr>,
               calls = [FindCall name key], remote = w'\<rparr> \<and>
        list_ex is_client_error (append_diagnostic (Diagnostics resp)
          (ClientError ''Unable to import workflow state, got error: %s'' None)) \<and>
        HasError (append_diagnostic (Diagnostics resp)
          (ClientError ''Unable to import workflow state, got error: %s'' None))) \<and>
     (findWorkflowState c name key w = (Inl e, w') \<longrightarrow>
        ImportState r ID resp w =
          Inr \<lparr>resp_of = resp\<lparr>Diagnostics := append_diagnostic (Diagnostics resp)
                  (ClientError ''Unable to import workflow state, got error: %s'' (Some e))\<rparr>,
               calls = [FindCall name key], remote = w'\<rparr> \<and>
        list_ex is_client_error (append_diagnostic (Diagnostics resp)
          (ClientError ''Unable to import workflow state, got error: %s'' (Some e))) \<and>
        HasError (append_diagnostic (Diagnostics resp)
          (ClientError ''Unable to import workflow state, got error: %s'' (Some e))))"
proof -
  have ce: "list_ex is_client_error (append_diagnostic ds (ClientError f x))" for ds f x
    using append_diagnostic_mem[of "ClientError f x" ds] is_client_error_ClientError[of f x]
    unfolding list_ex_iff by blast
  show ?thesis
    by (simp add: ImportState_accepted[OF assms] AddError_def State_SetAttribute_id_def
        state_object_def ce HasError_append_diagnostic is_error_ClientError)
qed

theorem ImportState_lookup_witness:
  "Split ''Done:ENG'' CHR '':'' = [''Done'', ''ENG''] \<and>
   findWorkflowState sample_client ''Done'' ''ENG'' [(''ws-Done'', sample_input)]
     = (Inr [\<lparr>node_Id = ''ws-Done''\<rparr>], [(''ws-Done'', sample_input)]) \<and>
   ImportState \<lparr>client_ptr = Some sample_client\<rparr> ''Done:ENG''
       \<lparr>Diagnostics = [], State = None :: int WorkflowStateResourceModel option\<rparr>
       [(''ws-Done'', sample_input)]
     = Inr \<lparr>resp_of = \<lparr>Diagnostics = [],
                       State = Some (null_model\<lparr>Id := StringValue ''ws-Done''\<rparr>)\<rparr>,
            calls = [FindCall ''Done'' ''ENG''], remote = [(''ws-Done'', sample_input)]\<rparr> \<and>
   findWorkflowState sample_client ''Done'' ''ENG'' [] = (Inr [], []) \<and>
   ImportState \<lparr>client_ptr = Some sample_client\<rparr> ''Done:ENG''
       \<lparr>Diagnostics = [], State = None :: int WorkflowStateResourceModel option\<rparr> []
     = Inr \<lparr>resp_of = \<lparr>Diagnostics =
                         [ClientError ''Unable to import workflow state, got error: %s'' None],
                       State = None\<rparr>,
            calls = [FindCall ''Done'' ''ENG''], remote = []\<rparr> \<and>
   findWorkflowState sample_client ''Done'' ''ENG''
       [(''ws-Done'', sample_input), (''ws-2'', sample_input)]
     = (Inr [\<lparr>node_Id = ''ws-Done''\<rparr>, \<lparr>node_Id = ''ws-2''\<rparr>],
        [(''ws-Done'', sample_input), (''ws-2'', sample_input)]) \<and>
   ImportState \<lparr>client_ptr = Some sample_client\<rparr> ''Done:ENG''
       \<lparr>Diagnostics = [], State = None :: int WorkflowStateResourceModel option\<rparr>
       [(''ws-Done'', sample_input), (''ws-2'', sample_input)]
     = Inr \<lparr>resp_of = \<lparr>Diagnostics =
                         [ClientError ''Unable to import workflow state, got error: %s'' None],
                       State = None\<rparr>,
            calls = [FindCall ''Done'' ''ENG''],
            remote = [(''ws-Done'', sample_input), (''ws-2'', sample_input)]\<rparr> \<and>
   findWorkflowState unreachable_client ''Done'' ''ENG'' [] = (Inl ''connection refused'', []) \<and>
   ImportState \<lparr>client_ptr = Some unreachable_client\<rparr> ''Done:ENG''
       \<lparr>Diagnostics = [], State = None :: int WorkflowStateResourceModel option\<rparr> []
     = Inr \<lparr>resp_of = \<lparr>Diagnostics =
                         [ClientError ''Unable to import workflow state, got error: %s''
                            (Some ''connection refused'')],
                       State = None\<rparr>,
            calls = [FindCall ''Done'' ''ENG''], remote = []\<rparr>"
proof -
  have s: "Split ''Done:ENG'' CHR '':'' = [''Done'', ''ENG'']"
    by (simp add: Split_def)
  have ne: "''Done'' \<noteq> []" "''ENG'' \<noteq> []" by simp_all
  let ?resp = "\<lparr>Diagnostics = [], State = None :: int WorkflowStateResourceModel option\<rparr>"
  have f1: "findWorkflowState sample_client ''Done'' ''ENG'' [(''ws-Done'', sample_input)]
              = (Inr [\<lparr>node_Id = ''ws-Done''\<rparr>], [(''ws-Done'', sample_input)])"
    and f0: "findWorkflowState sample_client ''Done'' ''ENG'' [] = (Inr [], [])"
    and f2: "findWorkflowState sample_client ''Done'' ''ENG''
               [(''ws-Done'', sample_input), (''ws-2'', sample_input)]
              = (Inr [\<lparr>node_Id = ''ws-Done''\<rparr>, \<lparr>node_Id = ''ws-2''\<rparr>],
                 [(''ws-Done'', sample_input), (''ws-2'', sample_input)])"
    and fe: "findWorkflowState unreachable_client ''Done'' ''ENG'' []
               = (Inl ''connection refused'', [])"
    by (simp_all add: sample_client_def unreachable_client_def sample_input_def)
  note th = ImportState_lookup[OF s ne]
  show ?thesis
    using th[of "\<lparr>client_ptr = Some sample_client\<rparr>" sample_client
            "[(''ws-Done'', sample_input)]" "\<lparr>node_Id = ''ws-Done''\<rparr>"
            "[(''ws-Done'', sample_input)]" ?resp]
      th[of "\<lparr>client_ptr = Some sample_client\<rparr>" sample_client "[]" _ "[]" ?resp "[]"]
      th[of "\<lparr>client_ptr = Some sample_client\<rparr>" sample_client
            "[(''ws-Done'', sample_input), (''ws-2'', sample_input)]" _
            "[(''ws-Done'', sample_input), (''ws-2'', sample_input)]" ?resp
            "[\<lparr>node_Id = ''ws-Done''\<rparr>, \<lparr>node_Id = ''ws-2''\<rparr>]"]
      th[of "\<lparr>client_ptr = Some unreachable_client\<rparr>" unreachable_client "[]" _ "[]" ?resp _
            "''connection refused''"]
    unfolding f1 f0 f2 fe
    by (simp add: s append_diagnostic_def state_object_def)
qed

subsection \<open>What each handler returns\<close>

lemma Append_Diagnostics: "Diagnostics (Append (Get_diags d) resp) = decoded_diagnostics d resp"
  by (simp add: Append_def decoded_diagnostics_def)

lemma Create_returns_early:
  assumes "HasError (decoded_diagnostics plan resp)"
  shows "Create big r plan resp w =
           Inr \<lparr>resp_of = resp\<lparr>Diagnostics := decoded_diagnostics plan resp\<rparr>,
                calls = [], remote = w\<rparr>"
  using assms by (simp add: Create_def Let_def Append_def decoded_diagnostics_def)

lemma Create_fails:
  assumes "\<not> HasError (decoded_diagnostics plan resp)"
    and "Position (Get_data plan) = NumberValue n" and "client_ptr r = Some c"
    and "createWorkflowState c (planned_create_input big (Get_data plan) n) w = (Inl e, w')"
  shows "Create big r plan resp w =
           Inr \<lparr>resp_of = resp\<lparr>Diagnostics := decoded_diagnostics plan resp @
                   [ClientError ''Unable to create workflow state, got error: %s'' (Some e)]\<rparr>,
                calls = [CreateCall (planned_create_input big (Get_data plan) n)],
                remote = w'\<rparr>"
  using assms append_diagnostic_error[OF assms(1) is_error_ClientError]
  by (simp add: Create_def Let_def Append_def AddError_def decoded_diagnostics_def
      planned_create_input_def)

lemma Create_succeeds:
  assumes "\<not> HasError (decoded_diagnostics plan resp)"
    and "Position (Get_data plan) = NumberValue n" and "client_ptr r = Some c"
    and "createWorkflowState c (planned_create_input big (Get_data plan) n) w = (Inr ws, w')"
  shows "Create big r plan resp w =
           Inr \<lparr>resp_of = \<lparr>Diagnostics = decoded_diagnostics plan resp,
                  State = Some \<lparr>Id = StringValue (created_Id ws),
                    Name = StringValue (created_Name ws),
                    Type = StringValue (created_Type ws),
                    Description = StringPointerValue (created_Description ws),
                    Color = StringValue (created_Color ws),
                    Position = NumberValue (NewFloat big (created_Position ws)),
                    TeamId = TeamId (Get_data plan)\<rparr>\<rparr>,
                calls = [CreateCall (planned_create_input big (Get_data plan) n)],
                remote = w'\<rparr>"
  using assms
  by (simp add: Create_def Let_def Append_def State_Set_def decoded_diagnostics_def
      planned_create_input_def)

lemma Read_fails:
  assumes "\<not> HasError (decoded_diagnostics state resp)" and "client_ptr r = Some c"
    and "getWorkflowState c (ValueString (Id (Get_data state))) w = (Inl e, w')"
  shows "Read big r state resp w =
           Inr \<lparr>resp_of = resp\<lparr>Diagnostics := decoded_diagnostics state resp @
                   [ClientError ''Unable to read workflow state, got error: %s'' (Some e)]\<rparr>,
                calls = [GetCall (ValueString (Id (Get_data state)))], remote = w'\<rparr>"
  using assms append_diagnostic_error[OF assms(1) is_error_ClientError]
  by (simp add: Read_def Let_def Append_def AddError_def decoded_diagnostics_def)

lemma Read_succeeds:
  assumes "\<not> HasError (decoded_diagnostics state resp)" and "client_ptr r = Some c"
    and "getWorkflowState c (ValueString (Id (Get_data state))) w = (Inr ws, w')"
  shows "Read big r state resp w =
           Inr \<lparr>resp_of = \<lparr>Diagnostics = decoded_diagnostics state resp,
                  State = Some \<lparr>Id = Id (Get_data state),
                    Name = StringValue (fetched_Name ws),
                    Type = StringValue (fetched_Type ws),
                    Description = StringPointerValue (fetched_Description ws),
                    Color = StringValue (fetched_Color ws),
                    Position = NumberValue (NewFloat big (fetched_Position ws)),
                    TeamId = StringValue (fetched_Team_Id ws)\<rparr>\<rparr>,
                calls = [GetCall (ValueString (Id (Get_data state)))], remote = w'\<rparr>"
  using assms
  by (simp add: Read_def Let_def Append_def State_Set_def decoded_diagnostics_def)

lemma Update_fails:
  assumes "\<not> HasError (decoded_diagnostics plan resp)"
    and "Position (Get_data plan) = NumberValue n" and "client_ptr r = Some c"
    and "updateWorkflowState c (planned_update_input big (Get_data plan) n)
           (ValueString (Id (Get_data plan))) w = (Inl e, w')"
  shows "Update big r plan resp w =
           Inr \<lparr>resp_of = resp\<lparr>Diagnostics := decoded_diagnostics plan resp @
                   [ClientError ''Unable to update workflow state, got error: %s'' (Some e)]\<rparr>,
                calls = [UpdateCall (planned_update_input big (Get_data plan) n)
                           (ValueString (Id (Get_data plan)))],
                remote = w'\<rparr>"
  using assms append_diagnostic_error[OF assms(1) is_error_ClientError]
  by (simp add: Update_def Let_def Append_def AddError_def decoded_diagnostics_def
      planned_update_input_def)

lemma Update_succeeds:
  assumes "\<not> HasError (decoded_diagnostics plan resp)"
    and "Position (Get_data plan) = NumberValue n" and "client_ptr r = Some c"
    and "updateWorkflowState c (planned_update_input big (Get_data plan) n)
           (ValueString (Id (Get_data plan))) w = (Inr ws, w')"
  shows "Update big r plan resp w =
           Inr \<lparr>resp_of = \<lparr>Diagnostics = decoded_diagnostics plan resp,
                  State = Some \<lparr>Id = Id (Get_data plan),
                    Name = StringValue (updated_Name ws),
                    Type = Type (Get_data plan),
                    Description = StringPointerValue (updated_Description ws),
                    Color = StringValue (updated_Color ws),
                    Position = NumberValue (NewFloat big (updated_Position ws)),
                    TeamId = TeamId (Get_data plan)\<rparr>\<rparr>,
                calls = [UpdateCall (planned_update_input big (Get_data plan) n)
                           (ValueString (Id (Get_data plan)))],
                remote = w'\<rparr>"
  using assms
  by (simp add: Update_def Let_def Append_def State_Set_def decoded_diagnostics_def
      planned_update_input_def)

lemma Delete_fails:
  assumes "\<not> HasError (decoded_diagnostics state resp)" and "client_ptr r = Some c"
    and "deleteWorkflowState c (ValueString (Id (Get_data state))) w = (Inl e, w')"
  shows "Delete r state resp w =
           Inr \<lparr>resp_of = resp\<lparr>Diagnostics := decoded_diagnostics state resp @
                   [ClientError ''Unable to delete workflow state, got error: %s'' (Some e)]\<rparr>,
                calls = [DeleteCall (ValueString (Id (Get_data state)))], remote = w'\<rparr>"
  using assms append_diagnostic_error[OF assms(1) is_error_ClientError]
  by (simp add: Delete_def Let_def Append_def AddError_def decoded_diagnostics_def)

text \<open>The two ways a handler panics: a position that is not known, and no client.\<close>

lemma Create_panics_without_position:
  assumes "\<not> HasError (decoded_diagnostics plan resp)"
    and "Position (Get_data plan) = NumberNull \<or> Position (Get_data plan) = NumberUnknown"
  shows "Create big r plan resp w = Inl NilPointerDereference"
  using assms by (auto simp: Create_def Let_def Append_def decoded_diagnostics_def)

lemma Create_panics_without_client:
  assumes "\<not> HasError (decoded_diagnostics plan resp)"
    and "Position (Get_data plan) = NumberValue n" and "client_ptr r = None"
  shows "Create big r plan resp w = Inl NilPointerDereference"
  using assms by (simp add: Create_def Let_def Append_def decoded_diagnostics_def)

lemma ImportState_panics_without_client:
  assumes "Split ID CHR '':'' = [name, key]" and "name \<noteq> []" and "key \<noteq> []"
    and "client_ptr r = None"
  shows "ImportState r ID resp w = Inl NilPointerDereference"
  using assms by (simp add: ImportState_def Let_def)

subsection \<open>Remote failures\<close>

text \<open>
  Claim C5. Take any of \<^verbatim>\<open>Create\<close>, \<^verbatim>\<open>Read\<close>, \<^verbatim>\<open>Update\<close> and \<^verbatim>\<open>Delete\<close> that reaches its
  remote call (the decoded request left no error in the response, the position is known
  where it is used and the resource has a client). If the call returns an error, the
  handler returns a response that differs from the one handed in only in its diagnostics:
  those present after decoding, followed by one client error carrying the error of the
  call, which is the only error among them. The call it made is the only remote call,
  and the state of the response is untouched.
\<close>

theorem remote_error_is_terminal:
  "(\<not> HasError (decoded_diagnostics plan resp) \<and> Position (Get_data plan) = NumberValue n \<and>
    client_ptr r = Some c \<and>
    createWorkflowState c (planned_create_input big (Get_data plan) n) w = (Inl e, w') \<longrightarrow>
      Create big r plan resp w =
        Inr \<lparr>resp_of = resp\<lparr>Diagnostics := decoded_diagnostics plan resp @
                [ClientError ''Unable to create workflow state, got error: %s'' (Some e)]\<rparr>,
             calls = [CreateCall (planned_create_input big (Get_data plan) n)],
             remote = w'\<rparr> \<and>
      filter is_error (decoded_diagnostics plan resp @
          [ClientError ''Unable to create workflow state, got error: %s'' (Some e)])
        = [ClientError ''Unable to create workflow state, got error: %s'' (Some e)]) \<and>
   (\<not> HasError (decoded_diagnostics plan resp) \<and> client_ptr r = Some c \<and>
    getWorkflowState c (ValueString (Id (Get_data plan))) w = (Inl e, w') \<longrightarrow>
      Read big r plan resp w =
        Inr \<lparr>resp_of = resp\<lparr>Diagnostics := decoded_diagnostics plan resp @
                [ClientError ''Unable to read workflow state, got error: %s'' (Some e)]\<rparr>,
             calls = [GetCall (ValueString (Id (Get_data plan)))], remote = w'\<rparr> \<and>
      filter is_error (decoded_diagnostics plan resp @
          [ClientError ''Unable to read workflow state, got error: %s'' (Some e)])
        = [ClientError ''Unable to read workflow state, got error: %s'' (Some e)]) \<and>
   (\<not> HasError (decoded_diagnostics plan resp) \<and> Position (Get_data plan) = NumberValue n \<and>
    client_ptr r = Some c \<and>
    updateWorkflowState c (planned_update_input big (Get_data plan) n)
      (ValueString (Id (Get_data plan))) w = (Inl e, w') \<longrightarrow>
      Update big r plan resp w =
        Inr \<lparr>resp_of = resp\<lparr>Diagnostics := decoded_diagnostics plan resp @
                [ClientError ''Unable to update workflow state, got error: %s'' (Some e)]\<rparr>,
             calls = [UpdateCall (planned_update_input big (Get_data plan) n)
                        (ValueString (Id (Get_data plan)))],
             remote = w'\<rparr> \<and>
      filter is_error (decoded_diagnostics plan resp @
          [ClientError ''Unable to update workflow state, got error: %s'' (Some e)])
        = [ClientError ''Unable to update workflow state, got error: %s'' (Some e)]) \<and>
   (\<not> HasError (decoded_diagnostics plan resp) \<and> client_ptr r = Some c \<and>
    deleteWorkflowState c (ValueString (Id (Get_data plan))) w = (Inl e, w') \<longrightarrow>
      Delete r plan resp w =
        Inr \<lparr>resp_of = resp\<lparr>Diagnostics := decoded_diagnostics plan resp @
                [ClientError ''Unable to delete workflow state, got error: %s'' (Some e)]\<rparr>,
             calls = [DeleteCall (ValueString (Id (Get_data plan)))], remote = w'\<rparr> \<and>
      filter is_error (decoded_diagnostics plan resp @
          [ClientError ''Unable to delete workflow state, got error: %s'' (Some e)])
        = [ClientError ''Unable to delete workflow state, got error: %s'' (Some e)])"
  by (intro conjI impI; (elim conjE)?)
     (simp_all add: Create_fails Read_fails Update_fails Delete_fails filter_is_error_no_error
       is_error_ClientError)

theorem remote_error_is_terminal_witness:
  "\<not> HasError (decoded_diagnostics \<lparr>Get_diags = [], Get_data = sample_state\<rparr>
       \<lparr>Diagnostics = [WarningDiagnostic ''Deprecated'' ''use another provider''],
        State = Some sample_state\<rparr>) \<and>
   Create sample_big \<lparr>client_ptr = Some unreachable_client\<rparr>
       \<lparr>Get_diags = [], Get_data = sample_state\<rparr>
       \<lparr>Diagnostics = [WarningDiagnostic ''Deprecated'' ''use another provider''],
        State = Some sample_state\<rparr> []
     = Inr \<lparr>resp_of = \<lparr>Diagnostics =
               [WarningDiagnostic ''Deprecated'' ''use another provider'',
                ClientError ''Unable to create workflow state, got error: %s''
                  (Some ''connection refused'')],
              State = Some sample_state\<rparr>,
            calls = [CreateCall sample_input], remote = []\<rparr> \<and>
   Read sample_big \<lparr>client_ptr = Some unreachable_client\<rparr>
       \<lparr>Get_diags = [], Get_data = sample_state\<rparr>
       \<lparr>Diagnostics = [WarningDiagnostic ''Deprecated'' ''use another provider''],
        State = Some sample_state\<rparr> []
     = Inr \<lparr>resp_of = \<lparr>Diagnostics =
               [WarningDiagnostic ''Deprecated'' ''use another provider'',
                ClientError ''Unable to read workflow state, got error: %s''
                  (Some ''connection refused'')],
              State = Some sample_state\<rparr>,
            calls = [GetCall ''ws-Done''], remote = []\<rparr> \<and>
   Update sample_big \<lparr>client_ptr = Some unreachable_client\<rparr>
       \<lparr>Get_diags = [], Get_data = sample_state\<rparr>
       \<lparr>Diagnostics = [WarningDiagnostic ''Deprecated'' ''use another provider''],
        State = Some sample_state\<rparr> []
     = Inr \<lparr>resp_of = \<lparr>Diagnostics =
               [WarningDiagnostic ''Deprecated'' ''use another provider'',
                ClientError ''Unable to update workflow state, got error: %s''
                  (Some ''connection refused'')],
              State = Some sample_state\<rparr>,
            calls = [UpdateCall \<lparr>update_Name = ''Done'', update_Color = ''#00ff00'',
                       update_Description = None, update_Position = 3\<rparr> ''ws-Done''],
            remote = []\<rparr> \<and>
   Delete \<lparr>client_ptr = Some unreachable_client\<rparr>
       \<lparr>Get_diags = [], Get_data = sample_state\<rparr>
       \<lparr>Diagnostics = [WarningDiagnostic ''Deprecated'' ''use another provider''],
        State = Some sample_state\<rparr> []
     = Inr \<lparr>resp_of = \<lparr>Diagnostics =
               [WarningDiagnostic ''Deprecated'' ''use another provider'',
                ClientError ''Unable to delete workflow state, got error: %s''
                  (Some ''connection refused'')],
              State = Some sample_state\<rparr>,
            calls = [DeleteCall ''ws-Done''], remote = []\<rparr>"
proof -
  let ?d = "\<lparr>Get_diags = [], Get_data = sample_state\<rparr>"
  let ?resp = "\<lparr>Diagnostics = [WarningDiagnostic ''Deprecated'' ''use another provider''],
                 State = Some sample_state\<rparr>"
  let ?r = "\<lparr>client_ptr = Some unreachable_client\<rparr>"
  have dd: "decoded_diagnostics ?d ?resp
              = [WarningDiagnostic ''Deprecated'' ''use another provider'']"
    by (simp add: decoded_diagnostics_def)
  have ne: "\<not> HasError (decoded_diagnostics ?d ?resp)"
    unfolding dd by (simp add: HasError_def)
  have pos: "Position sample_state = NumberValue 3"
    and ident: "ValueString (Id sample_state) = ''ws-Done''"
    by (simp_all add: sample_state_def sample_plan_def)
  have ci: "planned_create_input sample_big sample_state 3 = sample_input"
    and ui: "planned_update_input sample_big sample_state 3
               = \<lparr>update_Name = ''Done'', update_Color = ''#00ff00'',
                  update_Description = None, update_Position = 3\<rparr>"
    by (simp_all add: planned_create_input_def planned_update_input_def sample_state_def
        sample_plan_def sample_input_def sample_big_def)
  have calls: "createWorkflowState unreachable_client x w = (Inl ''connection refused'', w)"
    "getWorkflowState unreachable_client i w = (Inl ''connection refused'', w)"
    "updateWorkflowState unreachable_client u i w = (Inl ''connection refused'', w)"
    "deleteWorkflowState unreachable_client i w = (Inl ''connection refused'', w)"
    for x u i and w :: sample_remote
    by (simp_all add: unreachable_client_def)
  show ?thesis
    using remote_error_is_terminal[of ?d ?resp 3 ?r unreachable_client sample_big "[]"
        "''connection refused''" "[]"] ne
    unfolding dd
    by (simp add: pos ident ci ui calls is_error_ClientError)
qed

subsection \<open>Read\<close>

text \<open>
  Claim C4. Let \<^verbatim>\<open>Read\<close> reach its remote call (the decoded state left no error in the
  response and the resource has a client); the call is the read by the current id. When
  the call succeeds, the state stored keeps the id of the current state and takes every
  other attribute from the answer, the team id from the nested team. When the call
  returns an error, whatever the reason, the response differs from the one handed in only
  in its diagnostics, which end with a client error: the state is what it was, and in
  particular is not removed.
\<close>

theorem Read_refreshes_or_fails:
  assumes "\<not> HasError (decoded_diagnostics state resp)" and "client_ptr r = Some c"
  shows
    "(getWorkflowState c (ValueString (Id (Get_data state))) w = (Inr ws, w') \<longrightarrow>
        Read big r state resp w =
          Inr \<lparr>resp_of = \<lparr>Diagnostics = decoded_diagnostics state resp,
                 State = Some \<lparr>Id = Id (Get_data state),
                   Name = StringValue (fetched_Name ws),
                   Type = StringValue (fetched_Type ws),
                   Description = StringPointerValue (fetched_Description ws),
                   Color = StringValue (fetched_Color ws),
                   Position = NumberValue (NewFloat big (fetched_Position ws)),
                   TeamId = StringValue (fetched_Team_Id ws)\<rparr>\<rparr>,
               calls = [GetCall (ValueString (Id (Get_data state)))], remote = w'\<rparr>) \<and>
     (getWorkflowState c (ValueString (Id (Get_data state))) w = (Inl e, w') \<longrightarrow>
        Read big r state resp w =
          Inr \<lparr>resp_of = resp\<lparr>Diagnostics := decoded_diagnostics state resp @
                  [ClientError ''Unable to read workflow state, got error: %s'' (Some e)]\<rparr>,
               calls = [GetCall (ValueString (Id (Get_data state)))], remote = w'\<rparr> \<and>
        State (resp\<lparr>Diagnostics := decoded_diagnostics state resp @
                  [ClientError ''Unable to read workflow state, got error: %s'' (Some e)]\<rparr>)
          = State resp \<and>
        is_client_error (last (decoded_diagnostics state resp @
          [ClientError ''Unable to read workflow state, got error: %s'' (Some e)])))"
  by (simp add: Read_succeeds[OF assms] Read_fails[OF assms] is_client_error_ClientError)

theorem Read_refreshes_or_fails_witness:
  "\<not> HasError (decoded_diagnostics \<lparr>Get_diags = [], Get_data = sample_state\<rparr>
       \<lparr>Diagnostics = [], State = Some sample_state\<rparr>) \<and>
   getWorkflowState sample_client ''ws-Done''
       [(''ws-Done'', sample_input\<lparr>create_Name := ''Finished'', create_TeamId := ''T2'',
                                     create_Description := Some ''all done''\<rparr>)]
     = (Inr \<lparr>fetched_Name = ''Finished'', fetched_Type = ''completed'', fetched_Position = 3,
             fetched_Color = ''#00ff00'', fetched_Team_Id = ''T2'',
             fetched_Description = Some ''all done''\<rparr>,
        [(''ws-Done'', sample_input\<lparr>create_Name := ''Finished'', create_TeamId := ''T2'',
                                     create_Description := Some ''all done''\<rparr>)]) \<and>
   Read sample_big \<lparr>client_ptr = Some sample_client\<rparr>
       \<lparr>Get_diags = [], Get_data = sample_state\<rparr>
       \<lparr>Diagnostics = [], State = Some sample_state\<rparr>
       [(''ws-Done'', sample_input\<lparr>create_Name := ''Finished'', create_TeamId := ''T2'',
                                     create_Description := Some ''all done''\<rparr>)]
     = Inr \<lparr>resp_of = \<lparr>Diagnostics = [],
              State = Some \<lparr>Id = StringValue ''ws-Done'', Name = StringValue ''Finished'',
                Type = StringValue ''completed'', Description = StringValue ''all done'',
                Color = StringValue ''#00ff00'', Position = NumberValue 3,
                TeamId = StringValue ''T2''\<rparr>\<rparr>,
            calls = [GetCall ''ws-Done''],
            remote = [(''ws-Done'', sample_input\<lparr>create_Name := ''Finished'',
                         create_TeamId := ''T2'', create_Description := Some ''all done''\<rparr>)]\<rparr> \<and>
   getWorkflowState sample_client ''ws-Done'' [] = (Inl ''Entity not found'', []) \<and>
   Read sample_big \<lparr>client_ptr = Some sample_client\<rparr>
       \<lparr>Get_diags = [], Get_data = sample_state\<rparr>
       \<lparr>Diagnostics = [], State = Some sample_state\<rparr> []
     = Inr \<lparr>resp_of = \<lparr>Diagnostics =
               [ClientError ''Unable to read workflow state, got error: %s''
                  (Some ''Entity not found'')],
              State = Some sample_state\<rparr>,
            calls = [GetCall ''ws-Done''], remote = []\<rparr>"
proof -
  let ?d = "\<lparr>Get_diags = [], Get_data = sample_state\<rparr>"
  let ?resp = "\<lparr>Diagnostics = [], State = Some sample_state\<rparr>"
  let ?r = "\<lparr>client_ptr = Some sample_client\<rparr>"
  let ?w = "[(''ws-Done'', sample_input\<lparr>create_Name := ''Finished'', create_TeamId := ''T2'',
                                        create_Description := Some ''all done''\<rparr>)]"
  have dd: "decoded_diagnostics ?d ?resp = []"
    by (simp add: decoded_diagnostics_def)
  have ne: "\<not> HasError (decoded_diagnostics ?d ?resp)"
    unfolding dd by (simp add: HasError_def)
  have cl: "client_ptr ?r = Some sample_client" by simp
  have ident: "ValueString (Id (Get_data ?d)) = ''ws-Done''"
    by (simp add: sample_state_def sample_plan_def)
  have g1: "getWorkflowState sample_client ''ws-Done'' ?w
              = (Inr \<lparr>fetched_Name = ''Finished'', fetched_Type = ''completed'',
                      fetched_Position = 3, fetched_Color = ''#00ff00'',
                      fetched_Team_Id = ''T2'', fetched_Description = Some ''all done''\<rparr>, ?w)"
    and g0: "getWorkflowState sample_client ''ws-Done'' [] = (Inl ''Entity not found'', [])"
    by (simp_all add: sample_client_def sample_fetched_def sample_input_def)
  note th = Read_refreshes_or_fails[OF ne cl, unfolded ident dd]
  show ?thesis
    using th[of ?w _ ?w sample_big] th[of "[]" _ "[]" sample_big "''Entity not found''"] ne
    unfolding g1 g0 dd
    by (simp add: sample_big_def sample_state_def sample_plan_def)
qed

subsection \<open>Update\<close>

lemma requires_replace_Schema:
  "requires_replace (Schema colorRegex uuidRegex) prior plan =
     (if Type plan \<noteq> Type prior then [''type''] else []) @
     (if TeamId plan \<noteq> TeamId prior then [''team_id''] else [])"
  by (simp add: requires_replace_def Schema_def attribute_of_def)

text \<open>
  Claim C3. Let \<^verbatim>\<open>Update\<close> reach its remote call (the decoded plan left no error in the
  response, the position is known and the resource has a client). The one call it
  makes is the update by the planned id, with an input of the four fields name, color,
  description and position taken from the plan; the input is the same whatever the type
  and the team id of the plan are. When the call succeeds, the state stored takes name,
  position, color and description from the answer and keeps id, type and team id of
  the plan. In the schema, a planned type or team id that differs from the prior one
  forces replacement, and no other attribute does.
\<close>

theorem Update_sends_and_refreshes_mutable_fields:
  assumes "\<not> HasError (decoded_diagnostics plan resp)"
    and "Position (Get_data plan) = NumberValue n" and "client_ptr r = Some c"
  shows
    "calls_made (Update big r plan resp w) = Some [UpdateCall
        \<lparr>update_Name = ValueString (Name (Get_data plan)),
         update_Color = ValueString (Color (Get_data plan)),
         update_Description = ValueStringPointer (Description (Get_data plan)),
         update_Position = fst (Float64 big n)\<rparr>
        (ValueString (Id (Get_data plan)))] \<and>
     planned_update_input big ((Get_data plan)\<lparr>Type := t, TeamId := u\<rparr>) n
       = planned_update_input big (Get_data plan) n \<and>
     (updateWorkflowState c (planned_update_input big (Get_data plan) n)
          (ValueString (Id (Get_data plan))) w = (Inr ws, w') \<longrightarrow>
        Update big r plan resp w =
          Inr \<lparr>resp_of = \<lparr>Diagnostics = decoded_diagnostics plan resp,
                 State = Some \<lparr>Id = Id (Get_data plan),
                   Name = StringValue (updated_Name ws),
                   Type = Type (Get_data plan),
                   Description = StringPointerValue (updated_Description ws),
                   Color = StringValue (updated_Color ws),
                   Position = NumberValue (NewFloat big (updated_Position ws)),
                   TeamId = TeamId (Get_data plan)\<rparr>\<rparr>,
               calls = [UpdateCall (planned_update_input big (Get_data plan) n)
                          (ValueString (Id (Get_data plan)))],
               remote = w'\<rparr>) \<and>
     (Type (Get_data plan) \<noteq> Type prior \<longrightarrow>
        ''type'' \<in> set (requires_replace (Schema colorRegex uuidRegex) prior (Get_data plan))) \<and>
     (TeamId (Get_data plan) \<noteq> TeamId prior \<longrightarrow>
        ''team_id'' \<in>
          set (requires_replace (Schema colorRegex uuidRegex) prior (Get_data plan))) \<and>
     (Type (Get_data plan) = Type prior \<and> TeamId (Get_data plan) = TeamId prior \<longrightarrow>
        requires_replace (Schema colorRegex uuidRegex) prior (Get_data plan) = [])"
proof -
  obtain res w1 where call:
    "updateWorkflowState c (planned_update_input big (Get_data plan) n)
       (ValueString (Id (Get_data plan))) w = (res, w1)"
    by (cases "updateWorkflowState c (planned_update_input big (Get_data plan) n)
                 (ValueString (Id (Get_data plan))) w")
  have made: "calls_made (Update big r plan resp w)
      = Some [UpdateCall (planned_update_input big (Get_data plan) n)
                (ValueString (Id (Get_data plan)))]"
  proof (cases res)
    case (Inl e)
    with call show ?thesis by (simp add: Update_fails[OF assms] calls_made_def)
  next
    case (Inr ws)
    with call show ?thesis by (simp add: Update_succeeds[OF assms] calls_made_def)
  qed
  have input: "planned_update_input big ((Get_data plan)\<lparr>Type := t, TeamId := u\<rparr>) n
                 = planned_update_input big (Get_data plan) n"
    by (simp add: planned_update_input_def)
  from made have made':
    "calls_made (Update big r plan resp w) = Some [UpdateCall
        \<lparr>update_Name = ValueString (Name (Get_data plan)),
         update_Color = ValueString (Color (Get_data plan)),
         update_Description = ValueStringPointer (Description (Get_data plan)),
         update_Position = fst (Float64 big n)\<rparr>
        (ValueString (Id (Get_data plan)))]"
    unfolding planned_update_input_def .
  show ?thesis
    using made' input
    by (simp add: Update_succeeds[OF assms] requires_replace_Schema)
qed

theorem Update_sends_and_refreshes_mutable_fields_witness:
  "\<not> HasError (decoded_diagnostics
       \<lparr>Get_diags = [], Get_data = sample_state\<lparr>Name := StringValue ''Closed''\<rparr>\<rparr>
       \<lparr>Diagnostics = [], State = Some sample_state\<rparr>) \<and>
   Update sample_big \<lparr>client_ptr = Some sample_client\<rparr>
       \<lparr>Get_diags = [], Get_data = sample_state\<lparr>Name := StringValue ''Closed''\<rparr>\<rparr>
       \<lparr>Diagnostics = [], State = Some sample_state\<rparr> [(''ws-Done'', sample_input)]
     = Inr \<lparr>resp_of = \<lparr>Diagnostics = [],
              State = Some \<lparr>Id = StringValue ''ws-Done'', Name = StringValue ''Closed'',
                Type = StringValue ''completed'', Description = StringNull,
                Color = StringValue ''#00ff00'', Position = NumberValue 3,
                TeamId = StringValue ''6f9619ff-8b86-d011-b42d-00c04fc964ff''\<rparr>\<rparr>,
            calls = [UpdateCall \<lparr>update_Name = ''Closed'', update_Color = ''#00ff00'',
                       update_Description = None, update_Position = 3\<rparr> ''ws-Done''],
            remote = [(''ws-Done'', sample_input\<lparr>create_Name := ''Closed''\<rparr>),
                      (''ws-Done'', sample_input)]\<rparr> \<and>
   requires_replace (Schema sample_colorRegex sample_uuidRegex) sample_state
       (sample_state\<lparr>Name := StringValue ''Closed''\<rparr>) = [] \<and>
   Type (sample_state\<lparr>Type := StringValue ''canceled''\<rparr>) \<noteq> Type sample_state \<and>
   ''type'' \<in> set (requires_replace (Schema sample_colorRegex sample_uuidRegex) sample_state
       (sample_state\<lparr>Type := StringValue ''canceled''\<rparr>)) \<and>
   TeamId (sample_state\<lparr>TeamId := StringValue ''T2''\<rparr>) \<noteq> TeamId sample_state \<and>
   ''team_id'' \<in> set (requires_replace (Schema sample_colorRegex sample_uuidRegex) sample_state
       (sample_state\<lparr>TeamId := StringValue ''T2''\<rparr>))"
proof -
  let ?resp = "\<lparr>Diagnostics = [], State = Some sample_state\<rparr>"
  let ?r = "\<lparr>client_ptr = Some sample_client\<rparr>"
  let ?w = "[(''ws-Done'', sample_input)]"
  let ?p1 = "\<lparr>Get_diags = [], Get_data = sample_state\<lparr>Name := StringValue ''Closed''\<rparr>\<rparr>"
  let ?p2 = "\<lparr>Get_diags = [], Get_data = sample_state\<lparr>Type := StringValue ''canceled''\<rparr>\<rparr>"
  let ?p3 = "\<lparr>Get_diags = [], Get_data = sample_state\<lparr>TeamId := StringValue ''T2''\<rparr>\<rparr>"
  let ?ws = "\<lparr>updated_Name = ''Closed'', updated_Position = 3 :: int,
              updated_Color = ''#00ff00'', updated_Description = None\<rparr>"
  let ?w' = "[(''ws-Done'', sample_input\<lparr>create_Name := ''Closed''\<rparr>),
              (''ws-Done'', sample_input)]"
  have cl: "client_ptr ?r = Some sample_client" by simp
  have ne: "\<not> HasError (decoded_diagnostics \<lparr>Get_diags = [], Get_data = m\<rparr> ?resp)"
    for m :: "int WorkflowStateResourceModel"
    by (simp add: decoded_diagnostics_def HasError_def)
  have pos: "Position (Get_data ?p1) = NumberValue 3" "Position (Get_data ?p2) = NumberValue 3"
    "Position (Get_data ?p3) = NumberValue 3"
    by (simp_all add: sample_state_def sample_plan_def)
  note a = Update_sends_and_refreshes_mutable_fields[OF ne pos(1) cl,
      where big = sample_big and w = ?w and prior = sample_state and ws = ?ws and w' = ?w'
        and t = StringNull and u = StringNull
        and colorRegex = sample_colorRegex and uuidRegex = sample_uuidRegex]
  note b = Update_sends_and_refreshes_mutable_fields[OF ne pos(2) cl,
      where big = sample_big and w = ?w and prior = sample_state and ws = ?ws and w' = ?w'
        and t = StringNull and u = StringNull
        and colorRegex = sample_colorRegex and uuidRegex = sample_uuidRegex]
  note c = Update_sends_and_refreshes_mutable_fields[OF ne pos(3) cl,
      where big = sample_big and w = ?w and prior = sample_state and ws = ?ws and w' = ?w'
        and t = StringNull and u = StringNull
        and colorRegex = sample_colorRegex and uuidRegex = sample_uuidRegex]
  have upd: "Update sample_big ?r ?p1 ?resp ?w
      = Inr \<lparr>resp_of = \<lparr>Diagnostics = [],
              State = Some \<lparr>Id = StringValue ''ws-Done'', Name = StringValue ''Closed'',
                Type = StringValue ''completed'', Description = StringNull,
                Color = StringValue ''#00ff00'', Position = NumberValue 3,
                TeamId = StringValue ''6f9619ff-8b86-d011-b42d-00c04fc964ff''\<rparr>\<rparr>,
            calls = [UpdateCall \<lparr>update_Name = ''Closed'', update_Color = ''#00ff00'',
                       update_Description = None, update_Position = 3\<rparr> ''ws-Done''],
            remote = ?w'\<rparr>"
    using a[THEN conjunct2, THEN conjunct2, THEN conjunct1]
    by (simp add: sample_state_def sample_plan_def sample_big_def sample_client_def
        sample_input_def planned_update_input_def decoded_diagnostics_def)
  have none: "requires_replace (Schema sample_colorRegex sample_uuidRegex) sample_state
       (sample_state\<lparr>Name := StringValue ''Closed''\<rparr>) = []"
    using a[THEN conjunct2, THEN conjunct2, THEN conjunct2, THEN conjunct2, THEN conjunct2]
    by simp
  have diff: "Type (sample_state\<lparr>Type := StringValue ''canceled''\<rparr>) \<noteq> Type sample_state"
    "TeamId (sample_state\<lparr>TeamId := StringValue ''T2''\<rparr>) \<noteq> TeamId sample_state"
    by (simp_all add: sample_state_def sample_plan_def)
  have ty: "''type'' \<in> set (requires_replace (Schema sample_colorRegex sample_uuidRegex)
       sample_state (sample_state\<lparr>Type := StringValue ''canceled''\<rparr>))"
    using b[THEN conjunct2, THEN conjunct2, THEN conjunct2, THEN conjunct1] diff(1) by simp
  have tm: "''team_id'' \<in> set (requires_replace (Schema sample_colorRegex sample_uuidRegex)
       sample_state (sample_state\<lparr>TeamId := StringValue ''T2''\<rparr>))"
    using c[THEN conjunct2, THEN conjunct2, THEN conjunct2, THEN conjunct2, THEN conjunct1]
      diff(2) by simp
  show ?thesis
    using ne upd none diff ty tm by simp
qed

subsection \<open>Create\<close>

lemma Create_ignores_planned_Id:
  "Create big r (plan\<lparr>Get_data := (Get_data plan)\<lparr>Id := i\<rparr>\<rparr>) resp w = Create big r plan resp w"
  by (simp add: Create_def Let_def Append_def State_Set_def
      split: option.splits prod.splits sum.splits)

text \<open>
  Claim C9. The input \<^verbatim>\<open>Create\<close> sends has the six fields name, type, position, color,
  description and team id and no id: it, and the whole outcome of \<^verbatim>\<open>Create\<close>, are the same
  whatever the id of the plan is. When \<^verbatim>\<open>Create\<close> reaches its remote call and the call
  succeeds, the id of the state stored is the id of the answer.
\<close>

theorem Create_id_is_server_assigned:
  "planned_create_input big ((Get_data plan)\<lparr>Id := i\<rparr>) n
     = planned_create_input big (Get_data plan) n \<and>
   Create big r (plan\<lparr>Get_data := (Get_data plan)\<lparr>Id := i\<rparr>\<rparr>) resp w
     = Create big r plan resp w \<and>
   (\<not> HasError (decoded_diagnostics plan resp) \<and> Position (Get_data plan) = NumberValue n \<and>
    client_ptr r = Some c \<and>
    createWorkflowState c (planned_create_input big (Get_data plan) n) w = (Inr ws, w') \<longrightarrow>
      calls_made (Create big r plan resp w) = Some [CreateCall
          \<lparr>create_Name = ValueString (Name (Get_data plan)),
           create_Type = ValueString (Type (Get_data plan)),
           create_Position = fst (Float64 big n),
           create_Color = ValueString (Color (Get_data plan)),
           create_Description = ValueStringPointer (Description (Get_data plan)),
           create_TeamId = ValueString (TeamId (Get_data plan))\<rparr>] \<and>
      map_option Id (stored_state (Create big r plan resp w))
        = Some (StringValue (created_Id ws)))"
proof -
  have "planned_create_input big ((Get_data plan)\<lparr>Id := i\<rparr>) n
          = planned_create_input big (Get_data plan) n"
    by (simp add: planned_create_input_def)
  moreover have "\<not> HasError (decoded_diagnostics plan resp) \<and>
      Position (Get_data plan) = NumberValue n \<and> client_ptr r = Some c \<and>
      createWorkflowState c (planned_create_input big (Get_data plan) n) w = (Inr ws, w') \<longrightarrow>
        calls_made (Create big r plan resp w)
          = Some [CreateCall (planned_create_input big (Get_data plan) n)] \<and>
        map_option Id (stored_state (Create big r plan resp w))
          = Some (StringValue (created_Id ws))"
    by (auto simp: Create_succeeds calls_made_def stored_state_def)
  ultimately show ?thesis
    unfolding planned_create_input_def
    by (simp add: Create_ignores_planned_Id)
qed

theorem Create_id_is_server_assigned_witness:
  "\<not> HasError (decoded_diagnostics \<lparr>Get_diags = [], Get_data = sample_plan\<rparr>
       \<lparr>Diagnostics = [], State = None\<rparr>) \<and>
   Position sample_plan = NumberValue 3 \<and>
   createWorkflowState sample_client sample_input []
     = (Inr \<lparr>created_Id = ''ws-Done'', created_Name = ''Done'', created_Type = ''completed'',
             created_Position = 3, created_Color = ''#00ff00'', created_Description = None\<rparr>,
        [(''ws-Done'', sample_input)]) \<and>
   calls_made (Create sample_big \<lparr>client_ptr = Some sample_client\<rparr>
       \<lparr>Get_diags = [], Get_data = sample_plan\<rparr> \<lparr>Diagnostics = [], State = None\<rparr> [])
     = Some [CreateCall sample_input] \<and>
   map_option Id (stored_state (Create sample_big \<lparr>client_ptr = Some sample_client\<rparr>
       \<lparr>Get_diags = [], Get_data = sample_plan\<rparr> \<lparr>Diagnostics = [], State = None\<rparr> []))
     = Some (StringValue ''ws-Done'') \<and>
   Create sample_big \<lparr>client_ptr = Some sample_client\<rparr>
       \<lparr>Get_diags = [], Get_data = sample_plan\<lparr>Id := StringValue ''mine''\<rparr>\<rparr>
       \<lparr>Diagnostics = [], State = None\<rparr> []
     = Create sample_big \<lparr>client_ptr = Some sample_client\<rparr>
         \<lparr>Get_diags = [], Get_data = sample_plan\<rparr> \<lparr>Diagnostics = [], State = None\<rparr> []"
proof -
  let ?plan = "\<lparr>Get_diags = [], Get_data = sample_plan\<rparr>"
  let ?resp = "\<lparr>Diagnostics = [], State = None :: int WorkflowStateResourceModel option\<rparr>"
  let ?r = "\<lparr>client_ptr = Some sample_client\<rparr>"
  let ?ws = "\<lparr>created_Id = ''ws-Done'', created_Name = ''Done'', created_Type = ''completed'',
              created_Position = 3 :: int, created_Color = ''#00ff00'',
              created_Description = None\<rparr>"
  have ne: "\<not> HasError (decoded_diagnostics ?plan ?resp)"
    by (simp add: decoded_diagnostics_def HasError_def)
  have pos: "Position sample_plan = NumberValue 3"
    by (simp add: sample_plan_def)
  have ci: "planned_create_input sample_big sample_plan 3 = sample_input"
    by (simp add: planned_create_input_def sample_plan_def sample_input_def sample_big_def)
  have cr: "createWorkflowState sample_client sample_input []
              = (Inr ?ws, [(''ws-Done'', sample_input)])"
    by (simp add: sample_client_def sample_input_def)
  note th = Create_id_is_server_assigned[where big = sample_big and plan = ?plan and n = 3
      and r = ?r and resp = ?resp and w = "[]" and c = sample_client and ws = ?ws
      and w' = "[(''ws-Done'', sample_input)]" and i = "StringValue ''mine''"]
  have run: "calls_made (Create sample_big ?r ?plan ?resp []) = Some [CreateCall sample_input] \<and>
      map_option Id (stored_state (Create sample_big ?r ?plan ?resp []))
        = Some (StringValue ''ws-Done'')"
    using th[THEN conjunct2, THEN conjunct2] ne pos cr ci
    by (simp add: sample_input_def sample_plan_def sample_big_def)
  have same: "Create sample_big ?r \<lparr>Get_diags = [],
                 Get_data = sample_plan\<lparr>Id := StringValue ''mine''\<rparr>\<rparr> ?resp []
              = Create sample_big ?r ?plan ?resp []"
    using th[THEN conjunct2, THEN conjunct1] by simp
  show ?thesis
    using ne pos cr run same by simp
qed

text \<open>
  Claim C10. When \<^verbatim>\<open>Create\<close> reaches its remote call and the call succeeds, the state
  stored takes id, name, type, position, color and description from the answer, and its
  team id is the team id of the plan, as it was planned: the answer to a create call
  carries no team, so no answer can change it.
\<close>

theorem Create_keeps_planned_team_id:
  assumes "\<not> HasError (decoded_diagnostics plan resp)"
    and "Position (Get_data plan) = NumberValue n" and "client_ptr r = Some c"
    and "createWorkflowState c (planned_create_input big (Get_data plan) n) w = (Inr ws, w')"
  shows "map_option TeamId (stored_state (Create big r plan resp w))
           = Some (TeamId (Get_data plan)) \<and>
         Create big r plan resp w =
           Inr \<lparr>resp_of = \<lparr>Diagnostics = decoded_diagnostics plan resp,
                  State = Some \<lparr>Id = StringValue (created_Id ws),
                    Name = StringValue (created_Name ws),
                    Type = StringValue (created_Type ws),
                    Description = StringPointerValue (created_Description ws),
                    Color = StringValue (created_Color ws),
                    Position = NumberValue (NewFloat big (created_Position ws)),
                    TeamId = TeamId (Get_data plan)\<rparr>\<rparr>,
                calls = [CreateCall (planned_create_input big (Get_data plan) n)],
                remote = w'\<rparr>"
proof -
  note run = Create_succeeds[OF assms]
  have "map_option TeamId (stored_state (Create big r plan resp w))
          = Some (TeamId (Get_data plan))"
    unfolding run by (simp add: stored_state_def)
  with run show ?thesis by simp
qed

theorem Create_keeps_planned_team_id_witness:
  "\<not> HasError (decoded_diagnostics
       \<lparr>Get_diags = [], Get_data = sample_plan\<lparr>TeamId := StringValue ''6F9619FF''\<rparr>\<rparr>
       \<lparr>Diagnostics = [], State = None\<rparr>) \<and>
   Position (sample_plan\<lparr>TeamId := StringValue ''6F9619FF''\<rparr>) = NumberValue 3 \<and>
   createWorkflowState sample_client (sample_input\<lparr>create_TeamId := ''6F9619FF''\<rparr>) []
     = (Inr \<lparr>created_Id = ''ws-Done'', created_Name = ''Done'', created_Type = ''completed'',
             created_Position = 3, created_Color = ''#00ff00'', created_Description = None\<rparr>,
        [(''ws-Done'', sample_input\<lparr>create_TeamId := ''6F9619FF''\<rparr>)]) \<and>
   map_option TeamId (stored_state (Create sample_big \<lparr>client_ptr = Some sample_client\<rparr>
       \<lparr>Get_diags = [], Get_data = sample_plan\<lparr>TeamId := StringValue ''6F9619FF''\<rparr>\<rparr>
       \<lparr>Diagnostics = [], State = None\<rparr> []))
     = Some (StringValue ''6F9619FF'') \<and>
   Create sample_big \<lparr>client_ptr = Some sample_client\<rparr>
       \<lparr>Get_diags = [], Get_data = sample_plan\<lparr>TeamId := StringValue ''6F9619FF''\<rparr>\<rparr>
       \<lparr>Diagnostics = [], State = None\<rparr> []
     = Inr \<lparr>resp_of = \<lparr>Diagnostics = [],
              State = Some \<lparr>Id = StringValue ''ws-Done'', Name = StringValue ''Done'',
                Type = StringValue ''completed'', Description = StringNull,
                Color = StringValue ''#00ff00'', Position = NumberValue 3,
                TeamId = StringValue ''6F9619FF''\<rparr>\<rparr>,
            calls = [CreateCall (sample_input\<lparr>create_TeamId := ''6F9619FF''\<rparr>)],
            remote = [(''ws-Done'', sample_input\<lparr>create_TeamId := ''6F9619FF''\<rparr>)]\<rparr>"
proof -
  let ?data = "sample_plan\<lparr>TeamId := StringValue ''6F9619FF''\<rparr>"
  let ?plan = "\<lparr>Get_diags = [], Get_data = ?data\<rparr>"
  let ?resp = "\<lparr>Diagnostics = [], State = None :: int WorkflowStateResourceModel option\<rparr>"
  let ?r = "\<lparr>client_ptr = Some sample_client\<rparr>"
  let ?ws = "\<lparr>created_Id = ''ws-Done'', created_Name = ''Done'', created_Type = ''completed'',
              created_Position = 3 :: int, created_Color = ''#00ff00'',
              created_Description = None\<rparr>"
  let ?in = "sample_input\<lparr>create_TeamId := ''6F9619FF''\<rparr>"
  have ne: "\<not> HasError (decoded_diagnostics ?plan ?resp)"
    by (simp add: decoded_diagnostics_def HasError_def)
  have pos: "Position (Get_data ?plan) = NumberValue 3"
    by (simp add: sample_plan_def)
  have cl: "client_ptr ?r = Some sample_client" by simp
  have ci: "planned_create_input sample_big (Get_data ?plan) 3 = ?in"
    by (simp add: planned_create_input_def sample_plan_def sample_input_def sample_big_def)
  have cr: "createWorkflowState sample_client ?in [] = (Inr ?ws, [(''ws-Done'', ?in)])"
    by (simp add: sample_client_def sample_input_def)
  have cr': "createWorkflowState sample_client
               (planned_create_input sample_big (Get_data ?plan) 3) []
             = (Inr ?ws, [(''ws-Done'', ?in)])"
    unfolding ci by (rule cr)
  have dd: "decoded_diagnostics ?plan ?resp = []"
    by (simp add: decoded_diagnostics_def)
  note th = Create_keeps_planned_team_id[OF ne pos cl cr', unfolded ci dd]
  have kept: "map_option TeamId (stored_state (Create sample_big ?r ?plan ?resp []))
                = Some (StringValue ''6F9619FF'')"
    using th[THEN conjunct1] by (simp del: map_option_eq_Some)
  have run: "Create sample_big ?r ?plan ?resp []
      = Inr \<lparr>resp_of = \<lparr>Diagnostics = [],
              State = Some \<lparr>Id = StringValue ''ws-Done'', Name = StringValue ''Done'',
                Type = StringValue ''completed'', Description = StringNull,
                Color = StringValue ''#00ff00'', Position = NumberValue 3,
                TeamId = StringValue ''6F9619FF''\<rparr>\<rparr>,
            calls = [CreateCall ?in], remote = [(''ws-Done'', ?in)]\<rparr>"
    using th[THEN conjunct2] by (simp add: sample_big_def)
  show ?thesis
    using kept run ne pos cr by (simp del: map_option_eq_Some)
qed

subsection \<open>The position on the wire\<close>

lemma Create_accuracy_irrelevant:
  "Create (big\<lparr>Float64 := \<lambda>x. (fst (Float64 big x), acc x)\<rparr>) r plan resp w
     = Create big r plan resp w"
  by (simp add: Create_def Let_def split: option.splits prod.splits sum.splits)

lemma Update_accuracy_irrelevant:
  "Update (big\<lparr>Float64 := \<lambda>x. (fst (Float64 big x), acc x)\<rparr>) r plan resp w
     = Update big r plan resp w"
  by (simp add: Update_def Let_def split: option.splits prod.splits sum.splits)

lemma Create_call:
  assumes "\<not> HasError (decoded_diagnostics plan resp)"
    and "Position (Get_data plan) = NumberValue n" and "client_ptr r = Some c"
  shows "calls_made (Create big r plan resp w)
           = Some [CreateCall (planned_create_input big (Get_data plan) n)]"
proof (cases "createWorkflowState c (planned_create_input big (Get_data plan) n) w")
  case (Pair res w1)
  then show ?thesis
    by (cases res)
       (simp_all add: Create_fails[OF assms] Create_succeeds[OF assms] calls_made_def)
qed

lemma Update_call:
  assumes "\<not> HasError (decoded_diagnostics plan resp)"
    and "Position (Get_data plan) = NumberValue n" and "client_ptr r = Some c"
  shows "calls_made (Update big r plan resp w)
           = Some [UpdateCall (planned_update_input big (Get_data plan) n)
                     (ValueString (Id (Get_data plan)))]"
proof (cases "updateWorkflowState c (planned_update_input big (Get_data plan) n)
                (ValueString (Id (Get_data plan))) w")
  case (Pair res w1)
  then show ?thesis
    by (cases res)
       (simp_all add: Update_fails[OF assms] Update_succeeds[OF assms] calls_made_def)
qed

text \<open>
  Claim C8. When \<^verbatim>\<open>Create\<close> or \<^verbatim>\<open>Update\<close> reaches its remote call, the position of the
  input it sends is the first component of \<open>Float64\<close> applied to the planned number, that
  is, its narrowing. The second component, the accuracy, has no effect on anything either
  handler does: replacing the accuracy that \<open>Float64\<close> reports by any other leaves the
  whole outcome unchanged, so a loss of precision cannot surface as an error.
\<close>

theorem position_is_narrowed_and_accuracy_discarded:
  "(\<not> HasError (decoded_diagnostics plan resp) \<and> Position (Get_data plan) = NumberValue n \<and>
    client_ptr r = Some c \<longrightarrow>
      calls_made (Create big r plan resp w)
        = Some [CreateCall (planned_create_input big (Get_data plan) n)] \<and>
      create_Position (planned_create_input big (Get_data plan) n) = fst (Float64 big n) \<and>
      calls_made (Update big r plan resp w)
        = Some [UpdateCall (planned_update_input big (Get_data plan) n)
                  (ValueString (Id (Get_data plan)))] \<and>
      update_Position (planned_update_input big (Get_data plan) n) = fst (Float64 big n)) \<and>
   Create (big\<lparr>Float64 := \<lambda>x. (fst (Float64 big x), acc x)\<rparr>) r plan resp w
     = Create big r plan resp w \<and>
   Update (big\<lparr>Float64 := \<lambda>x. (fst (Float64 big x), acc x)\<rparr>) r plan resp w
     = Update big r plan resp w"
  by (simp add: Create_call Update_call Create_accuracy_irrelevant Update_accuracy_irrelevant)
     (simp add: planned_create_input_def planned_update_input_def)

theorem position_is_narrowed_and_accuracy_discarded_witness:
  "\<not> HasError (decoded_diagnostics
       \<lparr>Get_diags = [],
        Get_data = sample_state\<lparr>Position := NumberValue 9007199254740993\<rparr>\<rparr>
       \<lparr>Diagnostics = [], State = Some sample_state\<rparr>) \<and>
   Float64 sample_big 9007199254740993 = (9007199254740992, Below) \<and>
   calls_made (Create sample_big \<lparr>client_ptr = Some sample_client\<rparr>
       \<lparr>Get_diags = [],
        Get_data = sample_state\<lparr>Position := NumberValue 9007199254740993\<rparr>\<rparr>
       \<lparr>Diagnostics = [], State = Some sample_state\<rparr> [])
     = Some [CreateCall (sample_input\<lparr>create_Position := 9007199254740992\<rparr>)] \<and>
   calls_made (Update sample_big \<lparr>client_ptr = Some sample_client\<rparr>
       \<lparr>Get_diags = [],
        Get_data = sample_state\<lparr>Position := NumberValue 9007199254740993\<rparr>\<rparr>
       \<lparr>Diagnostics = [], State = Some sample_state\<rparr> [])
     = Some [UpdateCall \<lparr>update_Name = ''Done'', update_Color = ''#00ff00'',
               update_Description = None, update_Position = 9007199254740992\<rparr> ''ws-Done''] \<and>
   Create (sample_big\<lparr>Float64 := \<lambda>x. (fst (Float64 sample_big x), Exact)\<rparr>)
       \<lparr>client_ptr = Some sample_client\<rparr>
       \<lparr>Get_diags = [],
        Get_data = sample_state\<lparr>Position := NumberValue 9007199254740993\<rparr>\<rparr>
       \<lparr>Diagnostics = [], State = Some sample_state\<rparr> []
     = Create sample_big \<lparr>client_ptr = Some sample_client\<rparr>
         \<lparr>Get_diags = [],
          Get_data = sample_state\<lparr>Position := NumberValue 9007199254740993\<rparr>\<rparr>
         \<lparr>Diagnostics = [], State = Some sample_state\<rparr> []"
proof -
  let ?data = "sample_state\<lparr>Position := NumberValue 9007199254740993\<rparr>"
  let ?plan = "\<lparr>Get_diags = [], Get_data = ?data\<rparr>"
  let ?resp = "\<lparr>Diagnostics = [], State = Some sample_state\<rparr>"
  let ?r = "\<lparr>client_ptr = Some sample_client\<rparr>"
  have ne: "\<not> HasError (decoded_diagnostics ?plan ?resp)"
    by (simp add: decoded_diagnostics_def HasError_def)
  have narrow: "Float64 sample_big 9007199254740993 = (9007199254740992, Below)"
    by (simp add: sample_big_def)
  have ci: "planned_create_input sample_big ?data 9007199254740993
              = sample_input\<lparr>create_Position := 9007199254740992\<rparr>"
    by (simp add: planned_create_input_def narrow sample_state_def sample_plan_def
        sample_input_def)
  have ui: "planned_update_input sample_big ?data 9007199254740993
              = \<lparr>update_Name = ''Done'', update_Color = ''#00ff00'',
                 update_Description = None, update_Position = 9007199254740992\<rparr>"
    by (simp add: planned_update_input_def narrow sample_state_def sample_plan_def)
  have ident: "ValueString (Id sample_state) = ''ws-Done''"
    by (simp add: sample_state_def)
  show ?thesis
    using position_is_narrowed_and_accuracy_discarded[where plan = ?plan and resp = ?resp
        and n = 9007199254740993 and r = ?r and c = sample_client and big = sample_big
        and w = "[]" and acc = "\<lambda>x. Exact"] ne narrow
    by (simp add: ci ui ident)
qed

subsection \<open>Create followed by Read\<close>

text \<open>
  Claim C7. Take a plan whose name, type, color, team id and position are known and
  whose description is known or null, and whose position is exactly representable:
  widening its narrowing gives it back. Let \<^verbatim>\<open>Create\<close> reach its remote call, let the
  call succeed with an answer that echoes the input, and let the framework then call
  \<^verbatim>\<open>Read\<close> on the state \<^verbatim>\<open>Create\<close> stored, the read succeeding with an answer that echoes
  what was stored. Then the state after \<^verbatim>\<open>Create\<close>, and again the state after \<^verbatim>\<open>Read\<close>,
  is the plan with the id of the create answer: name, type, color, description, team
  id and position are those of the plan.
\<close>

theorem Create_then_Read_round_trip:
  assumes known: "Name (Get_data plan) = StringValue nm" "Type (Get_data plan) = StringValue ty"
      "Color (Get_data plan) = StringValue co" "TeamId (Get_data plan) = StringValue tid"
      "Description (Get_data plan) \<noteq> StringUnknown"
      "Position (Get_data plan) = NumberValue n"
    and representable: "NewFloat big (fst (Float64 big n)) = n"
    and reached: "\<not> HasError (decoded_diagnostics plan resp)" "client_ptr r = Some c"
    and created:
      "createWorkflowState c (planned_create_input big (Get_data plan) n) w = (Inr cr, w1)"
      "echoes_created (planned_create_input big (Get_data plan) n) cr"
    and fetched: "getWorkflowState c (created_Id cr) w1 = (Inr gr, w2)"
      "echoes_stored (planned_create_input big (Get_data plan) n) gr"
  shows
    "Create big r plan resp w =
       Inr \<lparr>resp_of = \<lparr>Diagnostics = decoded_diagnostics plan resp,
              State = Some ((Get_data plan)\<lparr>Id := StringValue (created_Id cr)\<rparr>)\<rparr>,
            calls = [CreateCall (planned_create_input big (Get_data plan) n)],
            remote = w1\<rparr> \<and>
     Read big r \<lparr>Get_diags = [], Get_data = (Get_data plan)\<lparr>Id := StringValue (created_Id cr)\<rparr>\<rparr>
         \<lparr>Diagnostics = [],
          State = Some ((Get_data plan)\<lparr>Id := StringValue (created_Id cr)\<rparr>)\<rparr> w1 =
       Inr \<lparr>resp_of = \<lparr>Diagnostics = [],
              State = Some ((Get_data plan)\<lparr>Id := StringValue (created_Id cr)\<rparr>)\<rparr>,
            calls = [GetCall (created_Id cr)], remote = w2\<rparr>"
proof -
  let ?data = "Get_data plan"
  let ?input = "planned_create_input big ?data n"
  let ?st = "?data\<lparr>Id := StringValue (created_Id cr)\<rparr>"
  have desc: "StringPointerValue (ValueStringPointer (Description ?data)) = Description ?data"
    using known(5) by (cases "Description ?data") simp_all
  have input: "create_Name ?input = nm" "create_Type ?input = ty" "create_Color ?input = co"
    "create_TeamId ?input = tid" "create_Position ?input = fst (Float64 big n)"
    "create_Description ?input = ValueStringPointer (Description ?data)"
    using known by (simp_all add: planned_create_input_def)
  have st: "\<lparr>Id = StringValue (created_Id cr), Name = StringValue nm, Type = StringValue ty,
             Description = Description ?data, Color = StringValue co,
             Position = NumberValue n, TeamId = StringValue tid\<rparr> = ?st"
    using known by (cases ?data) simp
  have c1: "Create big r plan resp w =
       Inr \<lparr>resp_of = \<lparr>Diagnostics = decoded_diagnostics plan resp, State = Some ?st\<rparr>,
            calls = [CreateCall ?input], remote = w1\<rparr>"
    using Create_succeeds[OF reached(1) known(6) reached(2) created(1)] created(2)
    by (simp add: echoes_created_def input representable desc known(4) st)
  let ?state = "\<lparr>Get_diags = [], Get_data = ?st\<rparr>"
  let ?resp2 = "\<lparr>Diagnostics = [], State = Some ?st\<rparr>"
  have ne2: "\<not> HasError (decoded_diagnostics ?state ?resp2)"
    by (simp add: decoded_diagnostics_def HasError_def)
  have get: "getWorkflowState c (ValueString (Id (Get_data ?state))) w1 = (Inr gr, w2)"
    using fetched(1) by simp
  have c2: "Read big r ?state ?resp2 w1 =
       Inr \<lparr>resp_of = \<lparr>Diagnostics = [], State = Some ?st\<rparr>,
            calls = [GetCall (created_Id cr)], remote = w2\<rparr>"
    using Read_succeeds[OF ne2 reached(2) get, of big] fetched(2)
    by (simp add: echoes_stored_def input representable desc decoded_diagnostics_def st)
  from c1 c2 show ?thesis by simp
qed

theorem Create_then_Read_round_trip_witness:
  "Description sample_plan \<noteq> StringUnknown \<and> Position sample_plan = NumberValue 3 \<and>
   NewFloat sample_big (fst (Float64 sample_big 3)) = 3 \<and>
   echoes_created sample_input
     \<lparr>created_Id = ''ws-Done'', created_Name = ''Done'', created_Type = ''completed'',
      created_Position = 3, created_Color = ''#00ff00'', created_Description = None\<rparr> \<and>
   echoes_stored sample_input (sample_fetched sample_input) \<and>
   Create sample_big \<lparr>client_ptr = Some sample_client\<rparr>
       \<lparr>Get_diags = [], Get_data = sample_plan\<rparr> \<lparr>Diagnostics = [], State = None\<rparr> []
     = Inr \<lparr>resp_of = \<lparr>Diagnostics = [], State = Some sample_state\<rparr>,
            calls = [CreateCall sample_input], remote = [(''ws-Done'', sample_input)]\<rparr> \<and>
   Read sample_big \<lparr>client_ptr = Some sample_client\<rparr>
       \<lparr>Get_diags = [], Get_data = sample_state\<rparr> \<lparr>Diagnostics = [], State = Some sample_state\<rparr>
       [(''ws-Done'', sample_input)]
     = Inr \<lparr>resp_of = \<lparr>Diagnostics = [], State = Some sample_state\<rparr>,
            calls = [GetCall ''ws-Done''], remote = [(''ws-Done'', sample_input)]\<rparr>"
proof -
  let ?plan = "\<lparr>Get_diags = [], Get_data = sample_plan\<rparr>"
  let ?resp = "\<lparr>Diagnostics = [], State = None :: int WorkflowStateResourceModel option\<rparr>"
  let ?r = "\<lparr>client_ptr = Some sample_client\<rparr>"
  let ?cr = "\<lparr>created_Id = ''ws-Done'', created_Name = ''Done'', created_Type = ''completed'',
              created_Position = 3 :: int, created_Color = ''#00ff00'',
              created_Description = None\<rparr>"
  let ?w1 = "[(''ws-Done'', sample_input)]"
  have known: "Name (Get_data ?plan) = StringValue ''Done''"
    "Type (Get_data ?plan) = StringValue ''completed''"
    "Color (Get_data ?plan) = StringValue ''#00ff00''"
    "TeamId (Get_data ?plan) = StringValue ''6f9619ff-8b86-d011-b42d-00c04fc964ff''"
    "Description (Get_data ?plan) \<noteq> StringUnknown"
    "Position (Get_data ?plan) = NumberValue 3"
    by (simp_all add: sample_plan_def)
  have repr: "NewFloat sample_big (fst (Float64 sample_big 3)) = 3"
    by (simp add: sample_big_def)
  have ne: "\<not> HasError (decoded_diagnostics ?plan ?resp)"
    and dd: "decoded_diagnostics ?plan ?resp = []"
    by (simp_all add: decoded_diagnostics_def HasError_def)
  have cl: "client_ptr ?r = Some sample_client" by simp
  have ci: "planned_create_input sample_big (Get_data ?plan) 3 = sample_input"
    by (simp add: planned_create_input_def sample_plan_def sample_input_def sample_big_def)
  have cr: "createWorkflowState sample_client
              (planned_create_input sample_big (Get_data ?plan) 3) [] = (Inr ?cr, ?w1)"
    unfolding ci by (simp add: sample_client_def sample_input_def)
  have ec: "echoes_created (planned_create_input sample_big (Get_data ?plan) 3) ?cr"
    unfolding ci by (simp add: echoes_created_def sample_input_def)
  have gt: "getWorkflowState sample_client (created_Id ?cr) ?w1
              = (Inr (sample_fetched sample_input), ?w1)"
    by (simp add: sample_client_def)
  have es: "echoes_stored (planned_create_input sample_big (Get_data ?plan) 3)
              (sample_fetched sample_input)"
    unfolding ci by (simp add: echoes_stored_def sample_fetched_def)
  show ?thesis
    using Create_then_Read_round_trip[OF known repr ne cl cr ec gt es]
      known(5,6) repr ec es
    unfolding ci dd
    by (simp add: sample_state_def)
qed

subsection \<open>Validation against the schema\<close>

lemma set_foldl_append_diagnostic:
  "set (foldl append_diagnostic ds xs) = set ds \<union> set xs"
  by (induction xs arbitrary: ds) (auto simp: append_diagnostic_def)

lemma set_ValidateConfig:
  "set (ValidateConfig schema config) = (\<Union>na \<in> set schema. set (validate_attribute config na))"
  by (simp add: ValidateConfig_def set_foldl_append_diagnostic)

text \<open>What validation reports for the schema of the resource, attribute by attribute.\<close>

lemma set_ValidateConfig_Schema:
  "set (ValidateConfig (Schema colorRegex uuidRegex) config) =
     set ((if Id config \<noteq> StringNull
           then [AttributeErrorDiagnostic ''id'' ReadOnlyAttributeConfigured] else []) @
          (if Name config = StringNull
           then [AttributeErrorDiagnostic ''name'' RequiredAttributeMissing] else []) @
          validate_string ''name'' (UTF8LengthAtLeast 1) (Name config) @
          (if Type config = StringNull
           then [AttributeErrorDiagnostic ''type'' RequiredAttributeMissing] else []) @
          validate_string ''type''
            (OneOf [''triage'', ''backlog'', ''unstarted'', ''started'', ''completed'',
                    ''canceled''])
            (Type config) @
          (if Position config = NumberNull
           then [AttributeErrorDiagnostic ''position'' RequiredAttributeMissing] else []) @
          (if Color config = StringNull
           then [AttributeErrorDiagnostic ''color'' RequiredAttributeMissing] else []) @
          validate_string ''color'' (RegexMatches colorRegex ''must be a hex color'')
            (Color config) @
          (if TeamId config = StringNull
           then [AttributeErrorDiagnostic ''team_id'' RequiredAttributeMissing] else []) @
          validate_string ''team_id'' (RegexMatches uuidRegex ''must be an uuid'')
            (TeamId config))"
  by (simp add: set_ValidateConfig Schema_def validate_attribute_def attribute_of_def
      Un_assoc)




lemma RuneCountInString_pos: "s \<noteq> [] \<Longrightarrow> 0 < RuneCountInString s"
  by (cases s) simp_all

text \<open>
  A configuration of well-formed known values, with a position and no id, passes
  validation.
\<close>

lemma ValidateConfig_accepts:
  assumes "Id config = StringNull"
    and "Name config = StringValue nm" and "nm \<noteq> []"
    and "Type config = StringValue ty"
    and "ty \<in> set [''triage'', ''backlog'', ''unstarted'', ''started'', ''completed'',
                   ''canceled'']"
    and "Position config \<noteq> NumberNull"
    and "Color config = StringValue co" and "colorRegex co"
    and "TeamId config = StringValue tid" and "uuidRegex tid"
  shows "ValidateConfig (Schema colorRegex uuidRegex) config = []"
proof -
  have "set (ValidateConfig (Schema colorRegex uuidRegex) config) = {}"
    using assms RuneCountInString_pos[OF assms(3)]
    by (auto simp: set_ValidateConfig_Schema)
  then show ?thesis by simp
qed

text \<open>
  A configuration that sets nothing lacks the five required attributes, and a configured
  id is refused.
\<close>

lemma ValidateConfig_null_model:
  "ValidateConfig (Schema colorRegex uuidRegex) (null_model :: 'n WorkflowStateResourceModel)
     = [AttributeErrorDiagnostic ''name'' RequiredAttributeMissing,
        AttributeErrorDiagnostic ''type'' RequiredAttributeMissing,
        AttributeErrorDiagnostic ''position'' RequiredAttributeMissing,
        AttributeErrorDiagnostic ''color'' RequiredAttributeMissing,
        AttributeErrorDiagnostic ''team_id'' RequiredAttributeMissing]"
  by (simp add: ValidateConfig_def Schema_def validate_attribute_def attribute_of_def
      null_model_def append_diagnostic_def)







end
